theory Spec2Isabelle
  imports Complex_Main "HOL-Library.Sublist"
begin

section \<open>Weaverbird session states: a shallow embedding\<close>

text \<open>
  The development follows the two source units of the code-generation orchestrator:
  the configuration resolver \<^verbatim>\<open>getConfig\<close> and the session state classes
  \<^verbatim>\<open>RefinementState\<close>, \<^verbatim>\<open>RefinementIterationState\<close>, \<^verbatim>\<open>CodeGenState\<close>,
  \<^verbatim>\<open>MockCodeGenState\<close> and \<^verbatim>\<open>CodeGenIterationState\<close> with their helpers
  \<^verbatim>\<open>createChanges\<close> and \<^verbatim>\<open>CodeGenBase.generateCode\<close>.

  Conventions of the embedding.
  \<^item> A rejected promise or a thrown exception is the left injection of a sum, a
    fulfilled promise the right one; \<^verbatim>\<open>await\<close> is sequencing.
  \<^item> Everything outside the two units (the remote invoker, the cancellation token, the
    virtual file system, the local file system, \<^verbatim>\<open>JSON.parse\<close>,
    \<^verbatim>\<open>Number.parseInt\<close>) is a field of a record of oracles that the functions take
    as their first argument. Nothing is assumed about an oracle except in the hypotheses
    of a theorem.
  \<^item> What a call does to the objects behind \<^verbatim>\<open>action.onAddToHistory\<close>,
    \<^verbatim>\<open>action.fs\<close> and the remote client is threaded through explicitly as a
    value of type \<open>sys\<close>: the ordered trace of observable events and the contents of the
    virtual file system.
  \<^item> Calls of \<^verbatim>\<open>getLogger()\<close> are not modelled: they return nothing and no
    statement below is about the log.
\<close>

subsection \<open>Exceptions\<close>

datatype exn = Error string | TypeError string | SyntaxError string

definition bind_exn :: "exn + 'a \<Rightarrow> ('a \<Rightarrow> exn + 'b) \<Rightarrow> exn + 'b" where
  "bind_exn r f = (case r of Inl e \<Rightarrow> Inl e | Inr v \<Rightarrow> f v)"

subsection \<open>Configuration resolution (\<^verbatim>\<open>getConfig\<close>)\<close>

text \<open>
  Values as \<^verbatim>\<open>JSON.parse\<close> produces them, with \<^verbatim>\<open>undefined\<close> added for the
  result of reading an absent property. An object is the list of its own properties, each
  name once. Numbers are only carried around and compared, never computed with.
\<close>

datatype number = NaN | PosInfinity | NegInfinity | Finite real

datatype jsval =
    JUndefined
  | JNull
  | JBoolean bool
  | JNumber number
  | JString string
  | JArray "jsval list"
  | JObject "(string \<times> jsval) list"

text \<open>
  \<^verbatim>\<open>v.k\<close>: reading a property of \<^verbatim>\<open>null\<close> or \<^verbatim>\<open>undefined\<close> throws a
  TypeError. An object yields its own property or \<^verbatim>\<open>undefined\<close>. The property
  names read by \<^verbatim>\<open>getConfig\<close> (version, endpoint, region, lambdaArns, approach,
  codegen, generate, iterate, getResults) are not defined on the prototypes of booleans,
  numbers, strings, arrays or objects, so every other value yields \<^verbatim>\<open>undefined\<close>.
\<close>

fun getProp :: "jsval \<Rightarrow> string \<Rightarrow> exn + jsval" where
  "getProp JUndefined k = Inl (TypeError k)"
| "getProp JNull k = Inl (TypeError k)"
| "getProp (JObject kvs) k = Inr (case map_of kvs k of None \<Rightarrow> JUndefined | Some v \<Rightarrow> v)"
| "getProp v k = Inr JUndefined"

text \<open>\<^verbatim>\<open>v?.k\<close>: \<^verbatim>\<open>undefined\<close> when \<open>v\<close> is nullish, the property otherwise.\<close>

fun optChain :: "jsval \<Rightarrow> string \<Rightarrow> jsval" where
  "optChain JUndefined k = JUndefined"
| "optChain JNull k = JUndefined"
| "optChain (JObject kvs) k = (case map_of kvs k of None \<Rightarrow> JUndefined | Some v \<Rightarrow> v)"
| "optChain v k = JUndefined"

text \<open>\<^verbatim>\<open>v ?? d\<close>. The cast \<^verbatim>\<open>as string\<close> in front of it is erased at run time.\<close>

fun nullish :: "jsval \<Rightarrow> jsval \<Rightarrow> jsval" where
  "nullish JUndefined d = d"
| "nullish JNull d = d"
| "nullish v d = v"

definition isNaN :: "number \<Rightarrow> bool" where
  "isNaN n = (n = NaN)"

text \<open>
  \<^verbatim>\<open>LocalResolvedConfig\<close>. The fields are strings by their declared type; what
  \<^verbatim>\<open>getConfig\<close> stores in them is whatever the parsed blob holds, so the record is
  polymorphic in the type of its leaves: \<open>jsval\<close> for the result of \<^verbatim>\<open>getConfig\<close>,
  \<open>string\<close> for the configuration the session states read.
\<close>

record 'a ApproachArns =
  generate :: 'a
  iterate :: 'a

record 'a CodegenArns =
  generate :: 'a
  iterate :: 'a
  getResults :: 'a

record 'a LambdaArns =
  approach :: "'a ApproachArns"
  codegen :: "'a CodegenArns"

record 'a LocalResolvedConfig =
  endpoint :: 'a
  region :: 'a
  lambdaArns :: "'a LambdaArns"

record platform =
  JSON_parse :: "string \<Rightarrow> exn + jsval"
  Number_parseInt :: "jsval \<Rightarrow> exn + number"
  Number_toString :: "number \<Rightarrow> string"

definition appConfigFormatVersion :: real where
  "appConfigFormatVersion = 2"

definition gammaConfig :: "jsval LocalResolvedConfig" where
  "gammaConfig = \<lparr>
     endpoint = JString ''https://8id2rzphzj.execute-api.us-west-2.amazonaws.com/gamma'',
     region = JString ''us-west-2'',
     lambdaArns = \<lparr>
       approach = \<lparr>
         ApproachArns.generate = JString
           ''arn:aws:lambda:us-west-2:789621683470:function:WeaverbirdService-Service-GenerateApproachLambda47-VIjB8vZYS3Iu:live'',
         ApproachArns.iterate = JString
           ''arn:aws:lambda:us-west-2:789621683470:function:WeaverbirdService-Service-IterateApproachLambda18D-48KTZ8YLkK70:live'' \<rparr>,
       codegen = \<lparr>
         CodegenArns.generate = JString
           ''arn:aws:lambda:us-west-2:789621683470:function:WeaverbirdService-Service-GenerateCodeLambdaCDE418-nXvafUVY7rmw:live'',
         CodegenArns.iterate = JString
           ''arn:aws:lambda:us-west-2:789621683470:function:WeaverbirdService-Service-IterateCodeLambdaA908EBD-Asyx9VdIH3k2:live'',
         CodegenArns.getResults = JString
           ''arn:aws:lambda:us-west-2:789621683470:function:WeaverbirdService-Service-GetCodeGenerationLambdaB-3W5Wr1TtVHcr:live'' \<rparr> \<rparr> \<rparr>"

definition defaultConfig :: "jsval LocalResolvedConfig" where
  "defaultConfig = gammaConfig"

text \<open>
  The body of the \<^verbatim>\<open>try\<close> block. The blob is \<^verbatim>\<open>process.env.WEAVERBIRD_CONFIG\<close>,
  absent when the variable is not set.
\<close>

definition resolveConfig :: "platform \<Rightarrow> string option \<Rightarrow> exn + jsval LocalResolvedConfig" where
  \<open>resolveConfig p config =
     bind_exn (JSON_parse p (case config of None \<Rightarrow> ''{ "version": 2}'' | Some c \<Rightarrow> c))
       (\<lambda>parsedConfig.
     bind_exn (getProp parsedConfig ''version'') (\<lambda>version.
     bind_exn (Number_parseInt p version) (\<lambda>localConfigVersion.
       if isNaN localConfigVersion \<or> localConfigVersion \<noteq> Finite appConfigFormatVersion
       then Inl (Error (''Invalid config version, required 2, found ''
                          @ Number_toString p localConfigVersion))
       else
     bind_exn (getProp parsedConfig ''endpoint'') (\<lambda>parsedEndpoint.
     bind_exn (getProp parsedConfig ''region'') (\<lambda>parsedRegion.
     bind_exn (getProp parsedConfig ''lambdaArns'') (\<lambda>parsedArns.
       Inr \<lparr>
         endpoint = nullish parsedEndpoint (endpoint defaultConfig),
         region = nullish parsedRegion (region defaultConfig),
         lambdaArns = \<lparr>
           approach = \<lparr>
             ApproachArns.generate =
               nullish (optChain (optChain parsedArns ''approach'') ''generate'')
                 (ApproachArns.generate (approach (lambdaArns defaultConfig))),
             ApproachArns.iterate =
               nullish (optChain (optChain parsedArns ''approach'') ''iterate'')
                 (ApproachArns.iterate (approach (lambdaArns defaultConfig))) \<rparr>,
           codegen = \<lparr>
             CodegenArns.generate =
               nullish (optChain (optChain parsedArns ''codegen'') ''generate'')
                 (CodegenArns.generate (codegen (lambdaArns defaultConfig))),
             CodegenArns.iterate =
               nullish (optChain (optChain parsedArns ''codegen'') ''iterate'')
                 (CodegenArns.iterate (codegen (lambdaArns defaultConfig))),
             CodegenArns.getResults =
               nullish (optChain (optChain parsedArns ''codegen'') ''getResults'')
                 (CodegenArns.getResults (codegen (lambdaArns defaultConfig))) \<rparr> \<rparr> \<rparr>))))))\<close>

text \<open>
  \<^verbatim>\<open>getConfig\<close> with the module variable \<^verbatim>\<open>cachedConfig\<close> passed in and returned.
  The \<^verbatim>\<open>catch\<close> clause turns every exception of the body into the default map.
\<close>

definition getConfig ::
  "platform \<Rightarrow> jsval LocalResolvedConfig option \<Rightarrow> string option
     \<Rightarrow> (exn + jsval LocalResolvedConfig) \<times> jsval LocalResolvedConfig option" where
  "getConfig p cachedConfig config =
     (case cachedConfig of
        Some c \<Rightarrow> (Inr c, Some c)
      | None \<Rightarrow>
          (let c = (case resolveConfig p config of Inl e \<Rightarrow> defaultConfig | Inr c \<Rightarrow> c)
           in (Inr c, Some c)))"

subsection \<open>Data of the session states\<close>

record FileMetadata =
  filePath :: string
  fileContent :: string

type_synonym NewFileContents = "FileMetadata list"

datatype GenerationFlowOption = fargate | lambda | stepFunction

record LLMConfig =
  model :: string
  maxTokensToSample :: int
  temperature :: real
  debateRounds :: int
  generationFlow :: GenerationFlowOption

text \<open>
  An \<^verbatim>\<open>Interaction\<close> as the state classes build it: \<^verbatim>\<open>{origin, type, content}\<close>,
  the content a string for a message and a list of paths for a code-generation summary.
  The field \<^verbatim>\<open>type\<close> is named \<open>itype\<close>.
\<close>

datatype Origin = user | ai

datatype InteractionType = message | codegen_summary

datatype Content = Text string | Paths "string list"

record Interaction =
  origin :: Origin
  itype :: InteractionType
  content :: Content

text \<open>
  \<^verbatim>\<open>SessionStateConfig\<close>. The field \<^verbatim>\<open>client\<close> is the handle of the remote
  invoker; the oracles below stand for it. \<^verbatim>\<open>RefinementState\<close> holds the
  configuration without the conversation id
  (\<^verbatim>\<open>Omit<SessionStateConfig, 'conversationId'>\<close>), the other states hold all of it.
\<close>

record SessionStateConfigBase =
  llmConfig :: LLMConfig
  workspaceRoot :: string
  backendConfig :: "string LocalResolvedConfig"

record SessionStateConfig = SessionStateConfigBase +
  conversationId :: string

text \<open>
  \<^verbatim>\<open>SessionStateAction\<close>: the handles \<^verbatim>\<open>onAddToHistory\<close> and \<^verbatim>\<open>fs\<close> are
  the threaded \<open>sys\<close> value; \<^verbatim>\<open>msg\<close> is optional.
\<close>

record SessionStateAction =
  task :: string
  files :: "FileMetadata list"
  msg :: "string option"

subsubsection \<open>Requests and responses of the remote operations\<close>

record GenerateApproachInput =
  task :: string
  originalFileContents :: "FileMetadata list"
  config :: LLMConfig

record GenerateApproachOutput =
  approach :: "string option"
  conversationId :: string

record IterateApproachInput =
  task :: string
  request :: string
  approach :: string
  originalFileContents :: "FileMetadata list"
  config :: LLMConfig
  conversationId :: string

record IterateApproachOutput =
  approach :: "string option"

record GenerateCodeInput =
  originalFileContents :: "FileMetadata list"
  approach :: string
  task :: string
  config :: LLMConfig
  conversationId :: string

record GenerateCodeOutput =
  generationId :: string

record GetCodeGenerationResultInput =
  generationId :: string
  conversationId :: string

text \<open>
  The poll response: \<^verbatim>\<open>result\<close> and \<^verbatim>\<open>result.newFileContents\<close> may both be
  absent (the code reads \<^verbatim>\<open>codegenResult.result?.newFileContents ?? []\<close>).
\<close>

record CodeGenerationResult =
  newFileContents :: "FileMetadata list option"

record GetCodeGenerationResultOutput =
  codeGenerationStatus :: string
  result :: "CodeGenerationResult option"

subsubsection \<open>The observable trace and the virtual file system\<close>

record Uri =
  scheme :: string
  path :: string

type_synonym VirtualFileSystem = "Uri \<rightharpoonup> string"

datatype request =
    GenerateApproach string GenerateApproachInput
  | IterateApproach string IterateApproachInput
  | GenerateCode string GenerateCodeInput
  | GetCodeGenerationResult string GetCodeGenerationResultInput

text \<open>
  One event per effect the states have on the outside: a remote call issued through
  \<^verbatim>\<open>invoke\<close> (function identifier and payload), a batch fired on
  \<^verbatim>\<open>onAddToHistory\<close>, and a suspension by \<^verbatim>\<open>setTimeout\<close> (milliseconds).
  The trace is kept oldest first.
\<close>

datatype event =
    Invoke request
  | Fire "Interaction list"
  | Delay nat

record sys =
  events :: "event list"
  vfs :: VirtualFileSystem

definition emit :: "event \<Rightarrow> sys \<Rightarrow> sys" where
  "emit e s = s\<lparr>events := events s @ [e]\<rparr>"

subsubsection \<open>The states\<close>

datatype SessionState =
    RefinementState SessionStateConfigBase string
  | RefinementIterationState SessionStateConfig string
  | CodeGenState SessionStateConfig string
  | MockCodeGenState SessionStateConfig string
  | CodeGenIterationState SessionStateConfig string "FileMetadata list"

record SessionStateInteraction =
  nextState :: SessionState
  interactions :: "Interaction list"

subsubsection \<open>The outside world\<close>

text \<open>
  \<^item> \<open>invoke_*\<close>: \<^verbatim>\<open>invoke(client, arn, payload)\<close> at each of its four uses; \<open>Inl\<close> is
    a rejected call. The status fetch also takes the number of the polling iteration, so
    that successive fetches of one polling cycle may answer differently.
  \<^item> \<open>isCancellationRequested\<close>: what \<^verbatim>\<open>this.tokenSource.token.isCancellationRequested\<close>
    reads at the head of the given polling iteration.
  \<^item> \<open>registerProvider\<close>: \<^verbatim>\<open>VirtualFileSystem.registerProvider\<close>, which may throw.
  \<^item> \<open>weaverbirdScheme\<close>: the constant of that name.
  \<^item> \<open>path_join\<close>, \<open>fs_stat\<close> (the truthiness of what \<^verbatim>\<open>fs.stat\<close> resolves to) and
    \<open>collectFiles\<close>: the local file system as \<^verbatim>\<open>MockCodeGenState\<close> sees it.
\<close>

record world =
  invoke_generateApproach :: "string \<Rightarrow> GenerateApproachInput \<Rightarrow> exn + GenerateApproachOutput"
  invoke_iterateApproach :: "string \<Rightarrow> IterateApproachInput \<Rightarrow> exn + IterateApproachOutput"
  invoke_generateCode :: "string \<Rightarrow> GenerateCodeInput \<Rightarrow> exn + GenerateCodeOutput"
  invoke_getCodeGenerationResult ::
    "string \<Rightarrow> GetCodeGenerationResultInput \<Rightarrow> nat \<Rightarrow> exn + GetCodeGenerationResultOutput"
  isCancellationRequested :: "nat \<Rightarrow> bool"
  registerProvider :: "VirtualFileSystem \<Rightarrow> Uri \<Rightarrow> string \<Rightarrow> exn + VirtualFileSystem"
  weaverbirdScheme :: string
  path_join :: "string \<Rightarrow> string \<Rightarrow> string"
  fs_stat :: "string \<Rightarrow> exn + bool"
  collectFiles :: "string \<Rightarrow> exn + FileMetadata list"

subsection \<open>String helpers\<close>

text \<open>
  A string is the list of its code units. The patterns searched for below are ASCII, so
  an occurrence is the same whether the units are bytes or UTF-16 units.

  \<^verbatim>\<open>s.indexOf(p)\<close>: the least position at which \<open>p\<close> occurs in \<open>s\<close>, or \<open>-1\<close>.
\<close>

fun indexOf_from :: "string \<Rightarrow> string \<Rightarrow> nat \<Rightarrow> int" where
  "indexOf_from [] p i = (if p = [] then int i else - 1)"
| "indexOf_from (c # cs) p i =
     (if prefix p (c # cs) then int i else indexOf_from cs p (Suc i))"

definition indexOf :: "string \<Rightarrow> string \<Rightarrow> int" where
  "indexOf s p = indexOf_from s p 0"

text \<open>
  \<^verbatim>\<open>action.msg && action.msg.indexOf(p) !== -1\<close>: an absent and an empty message
  are falsy.
\<close>

definition msgHas :: "string option \<Rightarrow> string \<Rightarrow> bool" where
  "msgHas m p = (case m of None \<Rightarrow> False | Some s \<Rightarrow> s \<noteq> [] \<and> indexOf s p \<noteq> - 1)"

text \<open>
  \<^verbatim>\<open>s.replace(p, r)\<close> with a string pattern: the first occurrence only.
\<close>

fun replace :: "string \<Rightarrow> string \<Rightarrow> string \<Rightarrow> string" where
  "replace [] p r = (if p = [] then r else [])"
| "replace (c # cs) p r =
     (if prefix p (c # cs) then r @ drop (length p) (c # cs) else c # replace cs p r)"

subsection \<open>The change materializer (\<^verbatim>\<open>createChanges\<close>)\<close>

text \<open>
  The loop of \<^verbatim>\<open>createChanges\<close>: each file is registered under the URI built from the
  scheme constant and its path, then its path is pushed onto \<^verbatim>\<open>filePaths\<close>. An
  exception of \<^verbatim>\<open>registerProvider\<close> leaves the loop with the files registered so far.
  \<^verbatim>\<open>TextEncoder.encode\<close> is the identity on strings of bytes.
\<close>

fun registerFiles ::
  "world \<Rightarrow> FileMetadata list \<Rightarrow> string list \<Rightarrow> sys \<Rightarrow> (exn + string list) \<times> sys" where
  "registerFiles w [] filePaths s = (Inr filePaths, s)"
| "registerFiles w (f # rest) filePaths s =
     (case registerProvider w (vfs s) \<lparr>scheme = weaverbirdScheme w, path = filePath f\<rparr>
             (fileContent f) of
        Inl e \<Rightarrow> (Inl e, s)
      | Inr fs' \<Rightarrow> registerFiles w rest (filePaths @ [filePath f]) (s\<lparr>vfs := fs'\<rparr>))"

definition createChanges ::
  "world \<Rightarrow> NewFileContents \<Rightarrow> sys \<Rightarrow> (exn + Interaction list) \<times> sys" where
  "createChanges w newContents s =
     (case registerFiles w newContents [] s of
        (Inl e, s') \<Rightarrow> (Inl e, s')
      | (Inr filePaths, s') \<Rightarrow>
          (Inr [\<lparr>origin = ai, itype = message,
                  content = Text ''Changes to files done. Please review:''\<rparr>,
                \<lparr>origin = ai, itype = codegen_summary, content = Paths filePaths\<rparr>],
           s'))"

subsection \<open>The polling engine (\<^verbatim>\<open>CodeGenBase.generateCode\<close>)\<close>

definition pollCount :: nat where
  "pollCount = 60"

text \<open>
  The \<^verbatim>\<open>for\<close> loop from the iteration \<open>pollingIteration\<close> on, followed by the code after
  the loop. The arguments \<open>getResultLambdaArn\<close> and \<open>generationId\<close> are the fields of
  \<^verbatim>\<open>params\<close>; its fields \<^verbatim>\<open>fs\<close> and \<^verbatim>\<open>onAddToHistory\<close> are in \<open>s\<close>.
\<close>

function generateCode_from ::
  "world \<Rightarrow> SessionStateConfig \<Rightarrow> string \<Rightarrow> string \<Rightarrow> nat \<Rightarrow> sys
     \<Rightarrow> (exn + FileMetadata list) \<times> sys" where
  "generateCode_from w cfg getResultLambdaArn genId pollingIteration s =
     (if pollingIteration < pollCount \<and> \<not> isCancellationRequested w pollingIteration then
        (let payload = \<lparr>generationId = genId,
                         conversationId = SessionStateConfig.conversationId cfg\<rparr>;
             s1 = emit (Invoke (GetCodeGenerationResult getResultLambdaArn payload)) s
         in case invoke_getCodeGenerationResult w getResultLambdaArn payload pollingIteration of
              Inl e \<Rightarrow> (Inl e, s1)
            | Inr codegenResult \<Rightarrow>
                if codeGenerationStatus codegenResult = ''ready'' then
                  (let newFiles =
                         (case result codegenResult of
                            None \<Rightarrow> []
                          | Some r \<Rightarrow> (case newFileContents r of None \<Rightarrow> [] | Some fs \<Rightarrow> fs))
                   in case createChanges w newFiles s1 of
                        (Inl e, s2) \<Rightarrow> (Inl e, s2)
                      | (Inr changes, s2) \<Rightarrow> (Inr newFiles, emit (Fire changes) s2))
                else if codeGenerationStatus codegenResult = ''in-progress'' then
                  generateCode_from w cfg getResultLambdaArn genId (Suc pollingIteration)
                    (emit (Delay 10000) s1)
                else if codeGenerationStatus codegenResult = ''failed'' then
                  (Inr [],
                   emit (Fire [\<lparr>origin = ai, itype = message,
                                 content = Text ''Code generation failed\<newline>''\<rparr>]) s1)
                else
                  (Inr [],
                   emit (Fire [\<lparr>origin = ai, itype = message,
                                 content = Text (''Unknown status: ''
                                   @ codeGenerationStatus codegenResult @ ''\<newline>'')\<rparr>]) s1))
      else
        (Inr [],
         emit (Fire [\<lparr>origin = ai, itype = message,
                       content = Text
                         ''Code generation did not finish withing the expected time :(''\<rparr>]) s))"
  by pat_completeness auto
termination
  by (relation "measure (\<lambda>(w, cfg, arn, genId, pollingIteration, s). pollCount - pollingIteration)")
     auto

definition generateCode ::
  "world \<Rightarrow> SessionStateConfig \<Rightarrow> string \<Rightarrow> string \<Rightarrow> sys \<Rightarrow> (exn + FileMetadata list) \<times> sys" where
  "generateCode w cfg getResultLambdaArn genId s =
     generateCode_from w cfg getResultLambdaArn genId 0 s"

text \<open>
  \<^verbatim>\<open>.catch(_ => { ...; return [] })\<close> on the promise of \<^verbatim>\<open>generateCode\<close>.
\<close>

definition catch_empty :: "(exn + FileMetadata list) \<times> sys \<Rightarrow> FileMetadata list \<times> sys" where
  "catch_empty r = (case r of (Inl e, s) \<Rightarrow> ([], s) | (Inr fs, s) \<Rightarrow> (fs, s))"

subsection \<open>The session states\<close>

definition fallbackApproach :: string where
  "fallbackApproach =
     ''There has been a problem generating an approach. Please type 'CLEAR' and start over.''"

definition RefinementState_interact ::
  "world \<Rightarrow> SessionStateConfigBase \<Rightarrow> string \<Rightarrow> SessionStateAction \<Rightarrow> sys
     \<Rightarrow> (exn + SessionStateInteraction) \<times> sys" where
  "RefinementState_interact w cfg approach0 action s =
     (let payload = \<lparr>GenerateApproachInput.task = SessionStateAction.task action,
                      GenerateApproachInput.originalFileContents = files action,
                      GenerateApproachInput.config = llmConfig cfg\<rparr>;
          arn = ApproachArns.generate (LambdaArns.approach (lambdaArns (backendConfig cfg)));
          s1 = emit (Invoke (GenerateApproach arn payload)) s
      in case invoke_generateApproach w arn payload of
           Inl e \<Rightarrow> (Inl e, s1)
         | Inr response \<Rightarrow>
             (let approach1 = (case GenerateApproachOutput.approach response of
                                 None \<Rightarrow> fallbackApproach | Some a \<Rightarrow> a)
              in (Inr \<lparr>nextState = RefinementIterationState
                                     \<lparr>llmConfig = llmConfig cfg,
                                      workspaceRoot = workspaceRoot cfg,
                                      backendConfig = backendConfig cfg,
                                      SessionStateConfig.conversationId =
                                        GenerateApproachOutput.conversationId response\<rparr>
                                     approach1,
                        interactions = [\<lparr>origin = ai, itype = message,
                                          content = Text (approach1 @ ''\<newline>'')\<rparr>]\<rparr>,
                  s1)))"

text \<open>
  The message fired on \<^verbatim>\<open>onAddToHistory\<close> once the generation id is known.
\<close>

definition startedMessage :: Interaction where
  "startedMessage =
     \<lparr>origin = ai, itype = message, content = Text ''Code generation started\<newline>''\<rparr>"

definition CodeGenState_interact ::
  "world \<Rightarrow> SessionStateConfig \<Rightarrow> string \<Rightarrow> SessionStateAction \<Rightarrow> sys
     \<Rightarrow> (exn + SessionStateInteraction) \<times> sys" where
  "CodeGenState_interact w cfg approach0 action s =
     (let payload = \<lparr>GenerateCodeInput.originalFileContents = files action,
                      GenerateCodeInput.approach = approach0,
                      GenerateCodeInput.task = SessionStateAction.task action,
                      GenerateCodeInput.config = llmConfig cfg,
                      GenerateCodeInput.conversationId = SessionStateConfig.conversationId cfg\<rparr>;
          arn = CodegenArns.generate (codegen (lambdaArns (backendConfig cfg)));
          s1 = emit (Invoke (GenerateCode arn payload)) s
      in case invoke_generateCode w arn payload of
           Inl e \<Rightarrow> (Inl e, s1)
         | Inr response \<Rightarrow>
             (let genId = GenerateCodeOutput.generationId response;
                  s2 = emit (Fire [startedMessage]) s1;
                  (newContents, s3) =
                     catch_empty
                       (generateCode w cfg
                          (getResults (codegen (lambdaArns (backendConfig cfg)))) genId s2)
              in (Inr \<lparr>nextState = CodeGenIterationState cfg approach0 newContents,
                        interactions = []\<rparr>,
                  s3)))"

text \<open>
  \<^verbatim>\<open>MockCodeGenState.interact\<close>: the \<^verbatim>\<open>try\<close> block leaves \<^verbatim>\<open>newFileContents\<close>
  empty when \<^verbatim>\<open>fs.stat\<close> or \<^verbatim>\<open>collectFiles\<close> throws or the directory is reported
  absent; \<^verbatim>\<open>createChanges\<close> is called outside the block.
\<close>

definition MockCodeGenState_interact ::
  "world \<Rightarrow> SessionStateConfig \<Rightarrow> string \<Rightarrow> SessionStateAction \<Rightarrow> sys
     \<Rightarrow> (exn + SessionStateInteraction) \<times> sys" where
  "MockCodeGenState_interact w cfg approach0 action s =
     (let mockedFilesDir = path_join w (workspaceRoot cfg) ''./mock-data'';
          newContents =
            (case fs_stat w mockedFilesDir of
               Inl e \<Rightarrow> []
             | Inr mockDirectoryExists \<Rightarrow>
                 if mockDirectoryExists then
                   (case collectFiles w mockedFilesDir of
                      Inl e \<Rightarrow> []
                    | Inr fs \<Rightarrow>
                        map (\<lambda>f. \<lparr>filePath = replace (filePath f) ''mock-data/'' [],
                                  fileContent = fileContent f\<rparr>) fs)
                 else [])
      in case createChanges w newContents s of
           (Inl e, s') \<Rightarrow> (Inl e, s')
         | (Inr changes, s') \<Rightarrow>
             (Inr \<lparr>nextState = CodeGenIterationState cfg approach0 newContents,
                   interactions = changes\<rparr>,
              s'))"

text \<open>
  The snapshot \<^verbatim>\<open>fileContents\<close> that \<^verbatim>\<open>CodeGenIterationState.interact\<close> builds from
  its own \<^verbatim>\<open>newFileContents\<close> and \<^verbatim>\<open>action.files\<close>:
  \<^verbatim>\<open>[...new].concat(...files.filter(o => !new.some(n => n.filePath === o.filePath)))\<close>.
  The elements spread into \<^verbatim>\<open>concat\<close> are plain objects, so each is appended as it is.
\<close>

definition fileContents :: "FileMetadata list \<Rightarrow> FileMetadata list \<Rightarrow> FileMetadata list" where
  "fileContents newContents originalFiles =
     newContents @
     filter (\<lambda>originalFile.
               \<not> list_ex (\<lambda>newFile. filePath newFile = filePath originalFile) newContents)
       originalFiles"

definition CodeGenIterationState_interact ::
  "world \<Rightarrow> SessionStateConfig \<Rightarrow> string \<Rightarrow> FileMetadata list \<Rightarrow> SessionStateAction \<Rightarrow> sys
     \<Rightarrow> (exn + SessionStateInteraction) \<times> sys" where
  "CodeGenIterationState_interact w cfg approach0 newContents action s =
     (let payload = \<lparr>GenerateCodeInput.originalFileContents =
                        fileContents newContents (files action),
                      GenerateCodeInput.approach = approach0,
                      GenerateCodeInput.task = SessionStateAction.task action,
                      GenerateCodeInput.config = llmConfig cfg,
                      GenerateCodeInput.conversationId = SessionStateConfig.conversationId cfg\<rparr>;
          arn = CodegenArns.generate (codegen (lambdaArns (backendConfig cfg)));
          s1 = emit (Invoke (GenerateCode arn payload)) s
      in case invoke_generateCode w arn payload of
           Inl e \<Rightarrow> (Inl e, s1)
         | Inr response \<Rightarrow>
             (let genId = GenerateCodeOutput.generationId response;
                  s2 = emit (Fire [startedMessage]) s1;
                  (newContents', s3) =
                     catch_empty
                       (generateCode w cfg
                          (getResults (codegen (lambdaArns (backendConfig cfg)))) genId s2)
              in (Inr \<lparr>nextState = CodeGenIterationState cfg approach0 newContents',
                        interactions = [\<lparr>origin = ai, itype = message,
                                          content = Text ''Changes to files done''\<rparr>]\<rparr>,
                  s3)))"

text \<open>
  \<^verbatim>\<open>RefinementIterationState.interact\<close>. The part of the body after the two sentinel
  checks, the approach iteration, is \<open>RefinementIterationState_iterate\<close>.
\<close>

definition RefinementIterationState_iterate ::
  "world \<Rightarrow> SessionStateConfig \<Rightarrow> string \<Rightarrow> SessionStateAction \<Rightarrow> sys
     \<Rightarrow> (exn + SessionStateInteraction) \<times> sys" where
  "RefinementIterationState_iterate w cfg approach0 action s =
     (let payload = \<lparr>IterateApproachInput.task = SessionStateAction.task action,
                      IterateApproachInput.request =
                        (case msg action of None \<Rightarrow> [] | Some m \<Rightarrow> m),
                      IterateApproachInput.approach = approach0,
                      IterateApproachInput.originalFileContents = files action,
                      IterateApproachInput.config = llmConfig cfg,
                      IterateApproachInput.conversationId =
                        SessionStateConfig.conversationId cfg\<rparr>;
          arn = ApproachArns.iterate (LambdaArns.approach (lambdaArns (backendConfig cfg)));
          s1 = emit (Invoke (IterateApproach arn payload)) s
      in case invoke_iterateApproach w arn payload of
           Inl e \<Rightarrow> (Inl e, s1)
         | Inr response \<Rightarrow>
             (let approach1 = (case IterateApproachOutput.approach response of
                                 None \<Rightarrow> fallbackApproach | Some a \<Rightarrow> a)
              in (Inr \<lparr>nextState = RefinementIterationState cfg approach1,
                        interactions = [\<lparr>origin = ai, itype = message,
                                          content = Text (approach1 @ ''\<newline>'')\<rparr>]\<rparr>,
                  s1)))"

definition RefinementIterationState_interact ::
  "world \<Rightarrow> SessionStateConfig \<Rightarrow> string \<Rightarrow> SessionStateAction \<Rightarrow> sys
     \<Rightarrow> (exn + SessionStateInteraction) \<times> sys" where
  "RefinementIterationState_interact w cfg approach0 action s =
     (if msgHas (msg action) ''WRITE CODE'' then
        CodeGenState_interact w cfg approach0 action s
      else if msgHas (msg action) ''MOCK CODE'' then
        MockCodeGenState_interact w cfg approach0 action s
      else
        RefinementIterationState_iterate w cfg approach0 action s)"

text \<open>The uniform \<^verbatim>\<open>interact\<close> of the interface \<^verbatim>\<open>SessionState\<close>.\<close>

fun interact ::
  "world \<Rightarrow> SessionState \<Rightarrow> SessionStateAction \<Rightarrow> sys
     \<Rightarrow> (exn + SessionStateInteraction) \<times> sys" where
  "interact w (RefinementState cfg a) action s = RefinementState_interact w cfg a action s"
| "interact w (RefinementIterationState cfg a) action s =
     RefinementIterationState_interact w cfg a action s"
| "interact w (CodeGenState cfg a) action s = CodeGenState_interact w cfg a action s"
| "interact w (MockCodeGenState cfg a) action s = MockCodeGenState_interact w cfg a action s"
| "interact w (CodeGenIterationState cfg a fs) action s =
     CodeGenIterationState_interact w cfg a fs action s"

declare generateCode_from.simps [simp del]

subsection \<open>Vocabulary of the statements\<close>

text \<open>
  The event of one status fetch of a polling cycle, the two events of a polling iteration
  that found the generation in progress, and the extension of the trace by a list of
  events.
\<close>

definition statusFetch :: "SessionStateConfig \<Rightarrow> string \<Rightarrow> string \<Rightarrow> event" where
  "statusFetch cfg getResultLambdaArn genId =
     Invoke (GetCodeGenerationResult getResultLambdaArn
               \<lparr>generationId = genId, conversationId = SessionStateConfig.conversationId cfg\<rparr>)"

definition inProgressRounds :: "SessionStateConfig \<Rightarrow> string \<Rightarrow> string \<Rightarrow> nat \<Rightarrow> event list" where
  "inProgressRounds cfg getResultLambdaArn genId k =
     concat (replicate k [statusFetch cfg getResultLambdaArn genId, Delay 10000])"

definition after :: "sys \<Rightarrow> event list \<Rightarrow> sys" where
  "after s es = s\<lparr>events := events s @ es\<rparr>"

text \<open>The three diagnostic messages of the polling engine.\<close>

definition timeoutMessage :: Interaction where
  "timeoutMessage =
     \<lparr>origin = ai, itype = message,
      content = Text ''Code generation did not finish withing the expected time :(''\<rparr>"

definition failedMessage :: Interaction where
  "failedMessage =
     \<lparr>origin = ai, itype = message, content = Text ''Code generation failed\<newline>''\<rparr>"

definition unknownStatusMessage :: "string \<Rightarrow> Interaction" where
  "unknownStatusMessage status =
     \<lparr>origin = ai, itype = message,
      content = Text (''Unknown status: '' @ status @ ''\<newline>'')\<rparr>"

text \<open>
  The number of status fetches in a trace, and the batches fired on
  \<^verbatim>\<open>onAddToHistory\<close> in it.
\<close>

fun isStatusFetch :: "event \<Rightarrow> bool" where
  "isStatusFetch (Invoke (GetCodeGenerationResult arn payload)) = True"
| "isStatusFetch e = False"

definition statusFetches :: "event list \<Rightarrow> nat" where
  "statusFetches es = length (filter isStatusFetch es)"

fun firedBatch :: "event \<Rightarrow> Interaction list list" where
  "firedBatch (Fire batch) = [batch]"
| "firedBatch e = []"

definition fired :: "event list \<Rightarrow> Interaction list list" where
  "fired es = concat (map firedBatch es)"

text \<open>The status fetch of polling iteration \<open>n\<close> answers \<^verbatim>\<open>in-progress\<close>.\<close>

definition inProgressAt :: "world \<Rightarrow> SessionStateConfig \<Rightarrow> string \<Rightarrow> string \<Rightarrow> nat \<Rightarrow> bool" where
  "inProgressAt w cfg getResultLambdaArn genId n =
     (case invoke_getCodeGenerationResult w getResultLambdaArn
             \<lparr>generationId = genId, conversationId = SessionStateConfig.conversationId cfg\<rparr> n of
        Inl e \<Rightarrow> False
      | Inr r \<Rightarrow> codeGenerationStatus r = ''in-progress'')"

text \<open>
  The function identifiers and the payload of the code-generation request as
  \<^verbatim>\<open>CodeGenState.interact\<close> and \<^verbatim>\<open>CodeGenIterationState.interact\<close> build them, the
  latter with the given snapshot as \<^verbatim>\<open>originalFileContents\<close>.
\<close>

definition generateArn :: "SessionStateConfig \<Rightarrow> string" where
  "generateArn cfg = CodegenArns.generate (codegen (lambdaArns (backendConfig cfg)))"

definition getResultsArn :: "SessionStateConfig \<Rightarrow> string" where
  "getResultsArn cfg = getResults (codegen (lambdaArns (backendConfig cfg)))"

definition generateCodeInput ::
  "SessionStateConfig \<Rightarrow> string \<Rightarrow> FileMetadata list \<Rightarrow> SessionStateAction \<Rightarrow> GenerateCodeInput" where
  "generateCodeInput cfg approach0 snapshot action =
     \<lparr>GenerateCodeInput.originalFileContents = snapshot,
      GenerateCodeInput.approach = approach0,
      GenerateCodeInput.task = SessionStateAction.task action,
      GenerateCodeInput.config = llmConfig cfg,
      GenerateCodeInput.conversationId = SessionStateConfig.conversationId cfg\<rparr>"

definition generateRequest ::
  "SessionStateConfig \<Rightarrow> string \<Rightarrow> FileMetadata list \<Rightarrow> SessionStateAction \<Rightarrow> event" where
  "generateRequest cfg approach0 snapshot action =
     Invoke (GenerateCode (generateArn cfg) (generateCodeInput cfg approach0 snapshot action))"

text \<open>The two interactions \<^verbatim>\<open>createChanges\<close> returns for the given paths.\<close>

definition confirmationMessage :: Interaction where
  "confirmationMessage =
     \<lparr>origin = ai, itype = message, content = Text ''Changes to files done. Please review:''\<rparr>"

definition codegenSummary :: "string list \<Rightarrow> Interaction" where
  "codegenSummary filePaths = \<lparr>origin = ai, itype = codegen_summary, content = Paths filePaths\<rparr>"

subsection \<open>Concrete inputs\<close>

text \<open>
  A configuration, an action and an initial system state, and worlds that differ in how
  the remote side answers. They are used to run the theorems below on inputs that satisfy
  their hypotheses.
\<close>

definition demoBackend :: "string LocalResolvedConfig" where
  "demoBackend =
     \<lparr>endpoint = ''https://example.invalid/gamma'', region = ''us-west-2'',
      lambdaArns =
        \<lparr>LambdaArns.approach = \<lparr>ApproachArns.generate = ''arn:approach-generate'',
                      ApproachArns.iterate = ''arn:approach-iterate''\<rparr>,
         LambdaArns.codegen = \<lparr>CodegenArns.generate = ''arn:codegen-generate'',
                     CodegenArns.iterate = ''arn:codegen-iterate'',
                     CodegenArns.getResults = ''arn:codegen-getResults''\<rparr>\<rparr>\<rparr>"

definition demoLLM :: LLMConfig where
  "demoLLM = \<lparr>model = ''claude'', maxTokensToSample = 4096, temperature = 0,
              debateRounds = 2, generationFlow = lambda\<rparr>"

definition demoBase :: SessionStateConfigBase where
  "demoBase = \<lparr>llmConfig = demoLLM, workspaceRoot = ''/ws'', backendConfig = demoBackend\<rparr>"

definition demoConfig :: SessionStateConfig where
  "demoConfig = \<lparr>llmConfig = demoLLM, workspaceRoot = ''/ws'', backendConfig = demoBackend,
                 SessionStateConfig.conversationId = ''conv-1''\<rparr>"

definition demoFiles :: "FileMetadata list" where
  "demoFiles = [\<lparr>filePath = ''a.txt'', fileContent = ''old a''\<rparr>,
                \<lparr>filePath = ''b.txt'', fileContent = ''old b''\<rparr>]"

definition demoAction :: "string option \<Rightarrow> SessionStateAction" where
  "demoAction m = \<lparr>SessionStateAction.task = ''add a button'', files = demoFiles, msg = m\<rparr>"

definition demoSys :: sys where
  "demoSys = \<lparr>events = [], vfs = Map.empty\<rparr>"

definition inProgressOutput :: GetCodeGenerationResultOutput where
  "inProgressOutput = \<lparr>codeGenerationStatus = ''in-progress'', result = None\<rparr>"

text \<open>
  The base world: every remote call succeeds, the generation stays in progress forever,
  nobody cancels, registration overwrites, and there is no mock directory.
\<close>

definition demoWorld :: world where
  "demoWorld =
     \<lparr>invoke_generateApproach =
        (\<lambda>arn p. Inr \<lparr>GenerateApproachOutput.approach = Some ''Add a button to the form'',
                        GenerateApproachOutput.conversationId = ''conv-1''\<rparr>),
      invoke_iterateApproach =
        (\<lambda>arn p. Inr \<lparr>IterateApproachOutput.approach = Some ''Add two buttons''\<rparr>),
      invoke_generateCode = (\<lambda>arn p. Inr \<lparr>GenerateCodeOutput.generationId = ''gen-1''\<rparr>),
      invoke_getCodeGenerationResult = (\<lambda>arn p n. Inr inProgressOutput),
      isCancellationRequested = (\<lambda>n. False),
      registerProvider = (\<lambda>fs uri bytes. Inr (fs(uri \<mapsto> bytes))),
      weaverbirdScheme = ''weaverbird'',
      path_join = (\<lambda>a b. a @ ''/mock-data''),
      fs_stat = (\<lambda>p. Inl (Error ''ENOENT'')),
      collectFiles = (\<lambda>p. Inr [])\<rparr>"

text \<open>The generation is in progress for two polls and then answers with the given output.\<close>

definition demoWorldThen :: "exn + GetCodeGenerationResultOutput \<Rightarrow> world" where
  "demoWorldThen answer =
     demoWorld\<lparr>invoke_getCodeGenerationResult :=
                 (\<lambda>arn p n. if n < 2 then Inr inProgressOutput else answer)\<rparr>"

text \<open>The first poll finds the generation ready with the one file \<^verbatim>\<open>{a.txt, "1"}\<close>.\<close>

definition demoWorldReady :: world where
  "demoWorldReady =
     demoWorld\<lparr>invoke_getCodeGenerationResult :=
                 (\<lambda>arn p n. Inr \<lparr>codeGenerationStatus = ''ready'',
                                  result = Some \<lparr>newFileContents =
                                    Some [\<lparr>filePath = ''a.txt'', fileContent = ''1''\<rparr>]\<rparr>\<rparr>)\<rparr>"

text \<open>The call that initiates code generation is rejected.\<close>

definition demoWorldRejecting :: world where
  "demoWorldRejecting =
     demoWorld\<lparr>invoke_generateCode := (\<lambda>arn p. Inl (Error ''transport failure''))\<rparr>"

text \<open>The approach generation returns no approach.\<close>

definition demoWorldNoApproach :: world where
  "demoWorldNoApproach =
     demoWorld\<lparr>invoke_generateApproach :=
                 (\<lambda>arn p. Inr \<lparr>GenerateApproachOutput.approach = None,
                                 GenerateApproachOutput.conversationId = ''conv-2''\<rparr>)\<rparr>"

text \<open>The mock directory exists and reading it fails.\<close>

definition demoWorldUnreadable :: world where
  "demoWorldUnreadable =
     demoWorld\<lparr>fs_stat := (\<lambda>p. Inr True), collectFiles := (\<lambda>p. Inl (Error ''EACCES''))\<rparr>"

text \<open>
  A platform that parses the two well-formed blobs of the configuration examples as
  \<^verbatim>\<open>JSON.parse\<close> does and rejects every other text, and whose \<^verbatim>\<open>parseInt\<close> returns a
  number as it is.
\<close>

definition blobVersion2 :: string where
  \<open>blobVersion2 = ''{"version":2,"endpoint":"https://x"}''\<close>

definition blobVersion1 :: string where
  \<open>blobVersion1 = ''{"version":1}''\<close>

definition blobMalformed :: string where
  \<open>blobMalformed = ''{"version":''\<close>

definition demoPlatform :: platform where
  "demoPlatform =
     \<lparr>JSON_parse =
        (\<lambda>text.
           if text = blobVersion2 then
             Inr (JObject [(''version'', JNumber (Finite 2)), (''endpoint'', JString ''https://x'')])
           else if text = blobVersion1 then
             Inr (JObject [(''version'', JNumber (Finite 1))])
           else Inl (SyntaxError ''Unexpected end of JSON input'')),
      Number_parseInt = (\<lambda>v. case v of JNumber n \<Rightarrow> Inr n | _ \<Rightarrow> Inr NaN),
      Number_toString = (\<lambda>n. if n = Finite 1 then ''1'' else ''NaN'')\<rparr>"

section \<open>Lemmas\<close>

subsection \<open>Substring search\<close>

lemma indexOf_from_found:
  "indexOf_from s p i \<noteq> - 1 \<longleftrightarrow> (\<exists>pre post. s = pre @ p @ post)"
proof (induction s arbitrary: i)
  case Nil
  then show ?case by auto
next
  case (Cons c cs)
  show ?case
  proof (cases "prefix p (c # cs)")
    case True
    then show ?thesis by (auto simp: prefix_def intro: exI[of _ "[]"])
  next
    case False
    have "(\<exists>pre post. c # cs = pre @ p @ post) \<longleftrightarrow> (\<exists>pre post. cs = pre @ p @ post)"
    proof
      assume "\<exists>pre post. c # cs = pre @ p @ post"
      then obtain pre post where e: "c # cs = pre @ p @ post" by blast
      with False have "pre \<noteq> []" by (auto simp: prefix_def)
      then obtain pre' where "pre = c # pre'" using e by (cases pre) auto
      with e show "\<exists>pre post. cs = pre @ p @ post" by auto
    next
      assume "\<exists>pre post. cs = pre @ p @ post"
      then obtain pre post where "cs = pre @ p @ post" by blast
      then have "c # cs = (c # pre) @ p @ post" by simp
      then show "\<exists>pre post. c # cs = pre @ p @ post" by blast
    qed
    with False Cons show ?thesis by simp
  qed
qed

subsection \<open>The trace of the materializer and of the polling engine\<close>

lemma registerFiles_events: "events (snd (registerFiles w fs ps s)) = events s"
  by (induction fs arbitrary: ps s) (auto split: sum.splits)

lemma createChanges_events: "events (snd (createChanges w fs s)) = events s"
  using registerFiles_events[of w fs "[]" s]
  by (auto simp: createChanges_def split: prod.splits sum.splits)

lemma after_Nil: "after s [] = s"
  by (simp add: after_def)

lemma after_after: "after (after s es) es' = after s (es @ es')"
  by (simp add: after_def)

lemma emit_after: "emit e s = after s [e]"
  by (simp add: emit_def after_def)

lemma inProgressRounds_Suc:
  "inProgressRounds cfg arn genId (Suc k) =
     [statusFetch cfg arn genId, Delay 10000] @ inProgressRounds cfg arn genId k"
  by (simp add: inProgressRounds_def)

lemma inProgressAtD:
  "inProgressAt w cfg arn genId n \<Longrightarrow>
     \<exists>r. invoke_getCodeGenerationResult w arn
            \<lparr>generationId = genId, conversationId = SessionStateConfig.conversationId cfg\<rparr> n = Inr r
         \<and> codeGenerationStatus r = ''in-progress''"
  by (auto simp: inProgressAt_def split: sum.splits)

lemma generateCode_from_step:
  assumes "i < pollCount" and "\<not> isCancellationRequested w i"
    and "inProgressAt w cfg arn genId i"
  shows "generateCode_from w cfg arn genId i s =
           generateCode_from w cfg arn genId (Suc i)
             (after s [statusFetch cfg arn genId, Delay 10000])"
proof -
  from inProgressAtD[OF assms(3)] obtain r where
    r: "invoke_getCodeGenerationResult w arn
          \<lparr>generationId = genId, conversationId = SessionStateConfig.conversationId cfg\<rparr> i = Inr r"
    and st: "codeGenerationStatus r = ''in-progress''" by blast
  show ?thesis
    by (subst generateCode_from.simps)
       (simp add: assms(1,2) r st Let_def emit_after after_after statusFetch_def)
qed

lemma generateCode_from_in_progress:
  assumes "\<forall>n. i \<le> n \<and> n < k \<longrightarrow>
              \<not> isCancellationRequested w n \<and> inProgressAt w cfg arn genId n"
    and "i \<le> k" and "k \<le> pollCount"
  shows "generateCode_from w cfg arn genId i s =
           generateCode_from w cfg arn genId k
             (after s (inProgressRounds cfg arn genId (k - i)))"
  using assms
proof (induction "k - i" arbitrary: i s)
  case 0
  then show ?case by (simp add: inProgressRounds_def after_Nil)
next
  case (Suc d)
  then have lt: "i < k" and d: "d = k - Suc i" by auto
  with Suc.prems have now: "i < pollCount" "\<not> isCancellationRequested w i"
      "inProgressAt w cfg arn genId i" by auto
  have rest: "\<forall>n. Suc i \<le> n \<and> n < k \<longrightarrow>
              \<not> isCancellationRequested w n \<and> inProgressAt w cfg arn genId n"
    using Suc.prems(1) by auto
  have ki: "k - i = Suc (k - Suc i)" using lt by simp
  show ?case
    using Suc.hyps(1)[OF d rest _ Suc.prems(3), of "after s [statusFetch cfg arn genId, Delay 10000]"] lt
    by (simp add: generateCode_from_step[OF now] after_after ki inProgressRounds_Suc)
qed

lemma generateCode_from_stop:
  assumes "\<not> (k < pollCount \<and> \<not> isCancellationRequested w k)"
  shows "generateCode_from w cfg arn genId k s = (Inr [], after s [Fire [timeoutMessage]])"
  using assms
  by (subst generateCode_from.simps) (auto simp: emit_after timeoutMessage_def)

lemma generateCode_from_throws:
  assumes "k < pollCount" and "\<not> isCancellationRequested w k"
    and "invoke_getCodeGenerationResult w arn
          \<lparr>generationId = genId, conversationId = SessionStateConfig.conversationId cfg\<rparr> k = Inl e"
  shows "generateCode_from w cfg arn genId k s = (Inl e, after s [statusFetch cfg arn genId])"
  using assms
  by (subst generateCode_from.simps) (simp add: emit_after statusFetch_def)

lemma generateCode_from_terminal:
  assumes "k < pollCount" and "\<not> isCancellationRequested w k"
    and "invoke_getCodeGenerationResult w arn
          \<lparr>generationId = genId, conversationId = SessionStateConfig.conversationId cfg\<rparr> k = Inr r"
    and "codeGenerationStatus r \<noteq> ''ready''" and "codeGenerationStatus r \<noteq> ''in-progress''"
  shows "generateCode_from w cfg arn genId k s =
           (Inr [], after s [statusFetch cfg arn genId,
                             Fire [if codeGenerationStatus r = ''failed'' then failedMessage
                                   else unknownStatusMessage (codeGenerationStatus r)]])"
  using assms
  by (subst generateCode_from.simps)
     (simp add: emit_after after_after statusFetch_def failedMessage_def unknownStatusMessage_def)

lemma generateCode_from_ready:
  assumes "k < pollCount" and "\<not> isCancellationRequested w k"
    and "invoke_getCodeGenerationResult w arn
          \<lparr>generationId = genId, conversationId = SessionStateConfig.conversationId cfg\<rparr> k = Inr r"
    and "codeGenerationStatus r = ''ready''"
  shows "generateCode_from w cfg arn genId k s =
           (let newFiles = (case result r of None \<Rightarrow> []
                            | Some x \<Rightarrow> (case newFileContents x of None \<Rightarrow> [] | Some fs \<Rightarrow> fs))
            in case createChanges w newFiles (after s [statusFetch cfg arn genId]) of
                 (Inl e, s2) \<Rightarrow> (Inl e, s2)
               | (Inr changes, s2) \<Rightarrow> (Inr newFiles, after s2 [Fire changes]))"
  using assms
  by (subst generateCode_from.simps)
     (simp add: emit_after statusFetch_def Let_def split: prod.splits sum.splits)

lemma prefix_after: "prefix (events s) (events (after s es))"
  by (simp add: after_def)

lemma generateCode_from_prefix:
  "prefix (events s) (events (snd (generateCode_from w cfg arn genId i s)))"
proof (induction "pollCount - i" arbitrary: i s)
  case 0
  then have "\<not> (i < pollCount \<and> \<not> isCancellationRequested w i)" by simp
  then show ?case by (simp add: generateCode_from_stop prefix_after)
next
  case (Suc d)
  let ?p = "\<lparr>generationId = genId, conversationId = SessionStateConfig.conversationId cfg\<rparr>"
  from Suc.hyps(2) have lt: "i < pollCount" by simp
  show ?case
  proof (cases "isCancellationRequested w i")
    case True
    then show ?thesis by (simp add: generateCode_from_stop prefix_after)
  next
    case False
    show ?thesis
    proof (cases "invoke_getCodeGenerationResult w arn ?p i")
      case (Inl e)
      then show ?thesis by (simp add: generateCode_from_throws[OF lt False] prefix_after)
    next
      case (Inr r)
      consider (ready) "codeGenerationStatus r = ''ready''"
        | (progress) "codeGenerationStatus r = ''in-progress''"
        | (other) "codeGenerationStatus r \<noteq> ''ready''" "codeGenerationStatus r \<noteq> ''in-progress''"
        by blast
      then show ?thesis
      proof cases
        case ready
        let ?nf = "case result r of None \<Rightarrow> []
                   | Some x \<Rightarrow> (case newFileContents x of None \<Rightarrow> [] | Some fs \<Rightarrow> fs)"
        have ev: "events (snd (createChanges w ?nf (after s [statusFetch cfg arn genId])))
                    = events s @ [statusFetch cfg arn genId]"
          by (simp add: createChanges_events after_def)
        show ?thesis
          using ev
          by (auto simp: generateCode_from_ready[OF lt False Inr ready] Let_def after_def
                   split: prod.splits sum.splits)
      next
        case progress
        have ip: "inProgressAt w cfg arn genId i"
          by (simp add: inProgressAt_def Inr progress)
        have d: "d = pollCount - Suc i" using Suc.hyps(2) by simp
        have "prefix (events (after s [statusFetch cfg arn genId, Delay 10000]))
                (events (snd (generateCode_from w cfg arn genId (Suc i)
                                (after s [statusFetch cfg arn genId, Delay 10000]))))"
          by (rule Suc.hyps(1)[OF d])
        then show ?thesis
          using prefix_after[of s "[statusFetch cfg arn genId, Delay 10000]"]
          by (simp add: generateCode_from_step[OF lt False ip])
      next
        case other
        then show ?thesis
          by (simp add: generateCode_from_terminal[OF lt False Inr other] prefix_after)
      qed
    qed
  qed
qed

lemma statusFetches_rounds [simp]:
  "statusFetches (inProgressRounds cfg arn genId k) = k"
  by (induction k) (simp_all add: inProgressRounds_def statusFetches_def statusFetch_def)

lemma fired_rounds [simp]: "fired (inProgressRounds cfg arn genId k) = []"
  by (induction k) (simp_all add: inProgressRounds_def fired_def statusFetch_def)

lemma statusFetches_append [simp]:
  "statusFetches (es @ es') = statusFetches es + statusFetches es'"
  by (simp add: statusFetches_def)

lemma fired_append [simp]: "fired (es @ es') = fired es @ fired es'"
  by (simp add: fired_def)

text \<open>
  With every status fetch in progress the loop ends at the first polling iteration that
  finds the token cancelled, or at the ceiling.
\<close>

lemma generateCode_all_in_progress:
  assumes "\<forall>n. inProgressAt w cfg arn genId n"
  shows "\<exists>k\<le>pollCount. (k = pollCount \<or> isCancellationRequested w k) \<and>
           (\<forall>n<k. \<not> isCancellationRequested w n) \<and>
           generateCode w cfg arn genId s =
             (Inr [], after s (inProgressRounds cfg arn genId k @ [Fire [timeoutMessage]]))"
proof -
  define k where "k = (LEAST n. n = pollCount \<or> isCancellationRequested w n)"
  have ex: "pollCount = pollCount \<or> isCancellationRequested w pollCount" by simp
  have k1: "k = pollCount \<or> isCancellationRequested w k"
    unfolding k_def by (rule LeastI[of "\<lambda>n. n = pollCount \<or> isCancellationRequested w n", OF ex])
  have k2: "k \<le> pollCount"
    unfolding k_def by (rule Least_le[of "\<lambda>n. n = pollCount \<or> isCancellationRequested w n", OF ex])
  have k3: "\<forall>n<k. \<not> isCancellationRequested w n"
    unfolding k_def using not_less_Least by blast
  have run: "generateCode_from w cfg arn genId 0 s =
               generateCode_from w cfg arn genId k (after s (inProgressRounds cfg arn genId (k - 0)))"
    by (rule generateCode_from_in_progress) (use assms k2 k3 in auto)
  have stop: "\<not> (k < pollCount \<and> \<not> isCancellationRequested w k)"
    using k1 by auto
  have "generateCode w cfg arn genId s =
          (Inr [], after s (inProgressRounds cfg arn genId k @ [Fire [timeoutMessage]]))"
    by (simp add: generateCode_def run generateCode_from_stop[OF stop] after_after)
  with k1 k2 k3 show ?thesis by blast
qed

subsection \<open>The merged snapshot\<close>

lemma list_ex_filePath:
  "list_ex (\<lambda>newFile. filePath newFile = p) fs \<longleftrightarrow> p \<in> filePath ` set fs"
  by (auto simp: list_ex_iff)

lemma fileContents_alt:
  "fileContents newContents originalFiles =
     newContents @ filter (\<lambda>f. filePath f \<notin> filePath ` set newContents) originalFiles"
  by (simp add: fileContents_def list_ex_filePath)

lemma fileContents_paths:
  "set (map filePath (fileContents newContents originalFiles)) =
     set (map filePath originalFiles) \<union> set (map filePath newContents)"
  by (auto simp: fileContents_alt)

lemma fileContents_distinct:
  assumes "distinct (map filePath originalFiles)" and "distinct (map filePath newContents)"
  shows "distinct (map filePath (fileContents newContents originalFiles))"
  using assms by (auto simp: fileContents_alt distinct_map_filter) (metis image_eqI)

lemma CodeGenIterationState_interact_first_event:
  "\<exists>rest. events (snd (CodeGenIterationState_interact w cfg a newContents action s)) =
     events s @ generateRequest cfg a (fileContents newContents (files action)) action # rest"
proof -
  let ?arn = "CodegenArns.generate (codegen (lambdaArns (backendConfig cfg)))"
  let ?p = "\<lparr>GenerateCodeInput.originalFileContents = fileContents newContents (files action),
        GenerateCodeInput.approach = a,
        GenerateCodeInput.task = SessionStateAction.task action,
        GenerateCodeInput.config = llmConfig cfg,
        GenerateCodeInput.conversationId = SessionStateConfig.conversationId cfg\<rparr>"
  have req: "generateRequest cfg a (fileContents newContents (files action)) action =
             Invoke (GenerateCode ?arn ?p)"
    by (simp add: generateRequest_def generateArn_def generateCodeInput_def)
  show ?thesis
  proof (cases "invoke_generateCode w ?arn ?p")
    case (Inl e)
    then show ?thesis
      by (simp add: CodeGenIterationState_interact_def Let_def emit_def req)
  next
    case (Inr response)
    let ?s2 = "emit (Fire [startedMessage]) (emit (Invoke (GenerateCode ?arn ?p)) s)"
    let ?g = "generateCode w cfg (getResults (codegen (lambdaArns (backendConfig cfg))))
                (GenerateCodeOutput.generationId response) ?s2"
    have "prefix (events ?s2) (events (snd ?g))"
      unfolding generateCode_def by (rule generateCode_from_prefix)
    then obtain es where es: "events (snd ?g) = events ?s2 @ es"
      by (auto simp: prefix_def)
    have "snd (catch_empty ?g) = snd ?g"
      by (simp add: catch_empty_def split: prod.splits sum.splits)
    with es have "events (snd (catch_empty ?g)) =
        events s @ Invoke (GenerateCode ?arn ?p) # (Fire [startedMessage] # es)"
      by (simp add: emit_def)
    then show ?thesis
      using Inr
      by (auto simp: CodeGenIterationState_interact_def Let_def req split: prod.splits)
  qed
qed

subsection \<open>Counting in a trace\<close>

lemma statusFetches_Nil [simp]: "statusFetches [] = 0"
  by (simp add: statusFetches_def)

lemma statusFetches_Cons [simp]:
  "statusFetches (e # es) = (if isStatusFetch e then 1 else 0) + statusFetches es"
  by (simp add: statusFetches_def)

lemma fired_Nil [simp]: "fired [] = []"
  by (simp add: fired_def)

lemma fired_Cons [simp]: "fired (e # es) = firedBatch e @ fired es"
  by (simp add: fired_def)

subsection \<open>\<^verbatim>\<open>CodeGenState.interact\<close> by the outcome of the initiating call\<close>

lemma catch_empty_Inr [simp]: "catch_empty (Inr fs, s) = (fs, s)"
  by (simp add: catch_empty_def)

lemma catch_empty_Inl [simp]: "catch_empty (Inl e, s) = ([], s)"
  by (simp add: catch_empty_def)

lemma CodeGenState_interact_rejected:
  assumes "invoke_generateCode w (generateArn cfg)
             (generateCodeInput cfg a (files action) action) = Inl e"
  shows "CodeGenState_interact w cfg a action s =
           (Inl e, after s [generateRequest cfg a (files action) action])"
  using assms
  by (simp add: CodeGenState_interact_def Let_def emit_after generateArn_def
        generateCodeInput_def generateRequest_def)

lemma CodeGenState_interact_accepted:
  assumes "invoke_generateCode w (generateArn cfg)
             (generateCodeInput cfg a (files action) action) = Inr response"
    and "catch_empty
           (generateCode w cfg (getResultsArn cfg) (GenerateCodeOutput.generationId response)
              (after s [generateRequest cfg a (files action) action, Fire [startedMessage]]))
         = (newContents, s3)"
  shows "CodeGenState_interact w cfg a action s =
           (Inr \<lparr>nextState = CodeGenIterationState cfg a newContents, interactions = []\<rparr>, s3)"
  using assms
  by (simp add: CodeGenState_interact_def Let_def emit_after after_after generateArn_def
        generateCodeInput_def generateRequest_def getResultsArn_def)

subsection \<open>Sentinels\<close>

lemma indexOf_sublist: "indexOf s p \<noteq> - 1 \<longleftrightarrow> sublist p s"
  by (simp add: indexOf_def indexOf_from_found sublist_def)

lemma msgHas_sublist: "msgHas (Some m) p \<longleftrightarrow> m \<noteq> [] \<and> sublist p m"
  by (simp add: msgHas_def indexOf_sublist)

lemma msgHas_sentinel:
  assumes "sublist p m" and "p \<noteq> []"
  shows "msgHas (Some m) p"
  using assms by (auto simp: msgHas_sublist)

lemma MockCodeGenState_interact_events:
  "events (snd (MockCodeGenState_interact w cfg a action s)) = events s"
proof -
  have "snd (case r of (Inl e, s') \<Rightarrow> (Inl e, s')
             | (Inr changes, s') \<Rightarrow> (Inr (f changes), s')) = snd r"
    for r :: "(exn + Interaction list) \<times> sys" and f :: "Interaction list \<Rightarrow> SessionStateInteraction"
    by (cases r; cases "fst r") auto
  then show ?thesis
    by (simp add: MockCodeGenState_interact_def Let_def createChanges_events)
qed

lemma CodeGenState_interact_events:
  "\<exists>rest. events (snd (CodeGenState_interact w cfg a action s)) =
            events s @ generateRequest cfg a (files action) action # rest"
proof (cases "invoke_generateCode w (generateArn cfg)
                (generateCodeInput cfg a (files action) action)")
  case (Inl e)
  then show ?thesis
    by (simp add: CodeGenState_interact_rejected after_def)
next
  case (Inr response)
  let ?s2 = "after s [generateRequest cfg a (files action) action, Fire [startedMessage]]"
  let ?g = "generateCode w cfg (getResultsArn cfg) (GenerateCodeOutput.generationId response) ?s2"
  have "prefix (events ?s2) (events (snd ?g))"
    unfolding generateCode_def by (rule generateCode_from_prefix)
  then obtain es where es: "events (snd ?g) = events ?s2 @ es"
    by (auto simp: prefix_def)
  obtain fs s3 where c: "catch_empty ?g = (fs, s3)"
    by (cases "catch_empty ?g")
  then have "s3 = snd ?g"
    by (auto simp: catch_empty_def split: prod.splits sum.splits)
  with es have "events s3 =
      events s @ generateRequest cfg a (files action) action # (Fire [startedMessage] # es)"
    by (simp add: after_def)
  then show ?thesis
    by (simp add: CodeGenState_interact_accepted[OF Inr c])
qed

lemma RefinementIterationState_interact_no_sentinel:
  assumes "\<not> msgHas (msg action) ''WRITE CODE''" and "\<not> msgHas (msg action) ''MOCK CODE''"
  shows "RefinementIterationState_interact w cfg a action s =
           RefinementIterationState_iterate w cfg a action s"
  using assms by (simp add: RefinementIterationState_interact_def)

lemma RefinementIterationState_iterate_events:
  "events (snd (RefinementIterationState_iterate w cfg a action s)) =
       events s @
       [Invoke (IterateApproach
          (ApproachArns.iterate (LambdaArns.approach (lambdaArns (backendConfig cfg))))
          \<lparr>IterateApproachInput.task = SessionStateAction.task action,
           IterateApproachInput.request = (case msg action of None \<Rightarrow> [] | Some m \<Rightarrow> m),
           IterateApproachInput.approach = a,
           IterateApproachInput.originalFileContents = files action,
           IterateApproachInput.config = llmConfig cfg,
           IterateApproachInput.conversationId = SessionStateConfig.conversationId cfg\<rparr>)]"
  by (simp add: RefinementIterationState_iterate_def Let_def emit_def split: sum.splits)

lemma RefinementIterationState_iterate_not_CodeGen:
  "RefinementIterationState_iterate w cfg a action s \<noteq> CodeGenState_interact w cfg a action s"
proof
  assume eq: "RefinementIterationState_iterate w cfg a action s =
              CodeGenState_interact w cfg a action s"
  obtain rest where r: "events (snd (CodeGenState_interact w cfg a action s)) =
            events s @ generateRequest cfg a (files action) action # rest"
    using CodeGenState_interact_events by blast
  from r show False
    unfolding eq[symmetric] RefinementIterationState_iterate_events
    by (simp add: generateRequest_def)
qed

subsection \<open>Configuration resolution\<close>

lemma getConfig_fresh:
  "getConfig p None env =
     (case resolveConfig p env of
        Inl e \<Rightarrow> (Inr defaultConfig, Some defaultConfig)
      | Inr c \<Rightarrow> (Inr c, Some c))"
  by (simp add: getConfig_def Let_def split: sum.splits)

lemma resolveConfig_unparseable:
  "JSON_parse p text = Inl e \<Longrightarrow> resolveConfig p (Some text) = Inl e"
  by (simp add: resolveConfig_def bind_exn_def)

lemma resolveConfig_version1:
  assumes "JSON_parse p text = Inr (JObject [(''version'', JNumber (Finite 1))])"
    and "Number_parseInt p (JNumber (Finite 1)) = Inr (Finite 1)"
  shows "\<exists>e. resolveConfig p (Some text) = Inl e"
  using assms
  by (simp add: resolveConfig_def bind_exn_def isNaN_def appConfigFormatVersion_def)

lemma resolveConfig_version2_endpoint:
  assumes "JSON_parse p text =
             Inr (JObject [(''version'', JNumber (Finite 2)), (''endpoint'', JString ''https://x'')])"
    and "Number_parseInt p (JNumber (Finite 2)) = Inr (Finite 2)"
  shows "resolveConfig p (Some text) = Inr (defaultConfig\<lparr>endpoint := JString ''https://x''\<rparr>)"
  using assms
  by (simp add: resolveConfig_def bind_exn_def isNaN_def appConfigFormatVersion_def
        defaultConfig_def gammaConfig_def)

section \<open>The claims\<close>

text \<open>
  C1. Let the files of the action and the files held by \<^verbatim>\<open>CodeGenIterationState\<close> each
  have pairwise distinct paths. The first thing \<^verbatim>\<open>interact\<close> does is to send the
  code-generation request whose \<^verbatim>\<open>originalFileContents\<close> is the merged snapshot. The
  snapshot has exactly one entry per path of the two lists together (its paths are
  distinct and are the union of the paths), an entry whose path occurs among the generated
  files is that generated file, and the snapshot is the generated files in their order
  followed by the original files whose path no generated file has, in their order.
\<close>

theorem C1_snapshot_merge:
  assumes "distinct (map filePath (files action))"
    and "distinct (map filePath newContents)"
  shows "(\<exists>rest. events (snd (CodeGenIterationState_interact w cfg a newContents action s)) =
            events s @
            generateRequest cfg a (fileContents newContents (files action)) action # rest)
       \<and> distinct (map filePath (fileContents newContents (files action)))
       \<and> set (map filePath (fileContents newContents (files action))) =
           set (map filePath (files action)) \<union> set (map filePath newContents)
       \<and> (\<forall>f \<in> set (fileContents newContents (files action)).
             filePath f \<in> set (map filePath newContents) \<longrightarrow> f \<in> set newContents)
       \<and> fileContents newContents (files action) =
           newContents @
           filter (\<lambda>f. filePath f \<notin> set (map filePath newContents)) (files action)"
proof -
  have "\<forall>f \<in> set (fileContents newContents (files action)).
             filePath f \<in> set (map filePath newContents) \<longrightarrow> f \<in> set newContents"
    by (auto simp: fileContents_alt)
  moreover have "fileContents newContents (files action) =
           newContents @
           filter (\<lambda>f. filePath f \<notin> set (map filePath newContents)) (files action)"
    by (simp add: fileContents_alt)
  ultimately show ?thesis
    using CodeGenIterationState_interact_first_event[of w cfg a newContents action s]
      fileContents_distinct[OF assms] fileContents_paths[of newContents "files action"]
    by blast
qed

theorem C1_snapshot_merge_witness:
  "distinct (map filePath (files (demoAction None)))
   \<and> distinct (map filePath [\<lparr>filePath = ''a.txt'', fileContent = ''new a''\<rparr>,
                              \<lparr>filePath = ''c.txt'', fileContent = ''new c''\<rparr>])
   \<and> fileContents [\<lparr>filePath = ''a.txt'', fileContent = ''new a''\<rparr>,
                    \<lparr>filePath = ''c.txt'', fileContent = ''new c''\<rparr>] (files (demoAction None)) =
       [\<lparr>filePath = ''a.txt'', fileContent = ''new a''\<rparr>,
        \<lparr>filePath = ''c.txt'', fileContent = ''new c''\<rparr>,
        \<lparr>filePath = ''b.txt'', fileContent = ''old b''\<rparr>]
   \<and> distinct (map filePath (fileContents [\<lparr>filePath = ''a.txt'', fileContent = ''new a''\<rparr>,
                    \<lparr>filePath = ''c.txt'', fileContent = ''new c''\<rparr>] (files (demoAction None))))"
proof -
  have h1: "distinct (map filePath (files (demoAction None)))"
    by (simp add: demoAction_def demoFiles_def)
  have h2: "distinct (map filePath [\<lparr>filePath = ''a.txt'', fileContent = ''new a''\<rparr>,
                              \<lparr>filePath = ''c.txt'', fileContent = ''new c''\<rparr>])"
    by simp
  show ?thesis
    using h1 h2 C1_snapshot_merge[OF h1 h2, of demoWorld demoConfig "''plan''" demoSys]
    by (simp add: demoAction_def demoFiles_def)
qed

text \<open>
  C2. Let the initiating call of \<^verbatim>\<open>CodeGenState.interact\<close> succeed and let every status
  fetch answer \<^verbatim>\<open>in-progress\<close>. Then the polling engine makes \<open>k\<close> status fetches for
  some \<open>k \<le> 60\<close>, where \<open>k\<close> is 60 unless the token is found cancelled at the head of
  iteration \<open>k\<close>; it fires exactly one batch, the timeout diagnostic, and returns the empty
  list. \<^verbatim>\<open>interact\<close> does not throw: it returns a \<^verbatim>\<open>CodeGenIterationState\<close> with an
  empty file set.
\<close>

theorem C2_polling_timeout:
  assumes init:
      "invoke_generateCode w (generateArn cfg)
         (generateCodeInput cfg a (files action) action) = Inr response"
    and inprog:
      "\<forall>n. inProgressAt w cfg (getResultsArn cfg) (GenerateCodeOutput.generationId response) n"
  shows "\<exists>k\<le>60.
           (k = 60 \<or> isCancellationRequested w k)
         \<and> generateCode w cfg (getResultsArn cfg) (GenerateCodeOutput.generationId response) s0 =
             (Inr [],
              after s0
                (inProgressRounds cfg (getResultsArn cfg)
                   (GenerateCodeOutput.generationId response) k
                 @ [Fire [timeoutMessage]]))
         \<and> statusFetches
             (inProgressRounds cfg (getResultsArn cfg)
                (GenerateCodeOutput.generationId response) k
              @ [Fire [timeoutMessage]]) = k
         \<and> fired
             (inProgressRounds cfg (getResultsArn cfg)
                (GenerateCodeOutput.generationId response) k
              @ [Fire [timeoutMessage]]) = [[timeoutMessage]]
         \<and> CodeGenState_interact w cfg a action s =
             (Inr \<lparr>nextState = CodeGenIterationState cfg a [], interactions = []\<rparr>,
              after s
                ([generateRequest cfg a (files action) action, Fire [startedMessage]]
                 @ inProgressRounds cfg (getResultsArn cfg)
                     (GenerateCodeOutput.generationId response) k
                 @ [Fire [timeoutMessage]]))"
proof -
  let ?arn = "getResultsArn cfg"
  let ?gid = "GenerateCodeOutput.generationId response"
  let ?s2 = "after s [generateRequest cfg a (files action) action, Fire [startedMessage]]"
  from generateCode_all_in_progress[OF inprog, of s0] obtain k where
    k: "k \<le> pollCount" "k = pollCount \<or> isCancellationRequested w k"
       "\<forall>n<k. \<not> isCancellationRequested w n"
    and run0: "generateCode w cfg ?arn ?gid s0 =
           (Inr [], after s0 (inProgressRounds cfg ?arn ?gid k @ [Fire [timeoutMessage]]))"
    by blast
  have stop: "\<not> (k < pollCount \<and> \<not> isCancellationRequested w k)"
    using k(2) by auto
  have "generateCode_from w cfg ?arn ?gid 0 ?s2 =
          generateCode_from w cfg ?arn ?gid k (after ?s2 (inProgressRounds cfg ?arn ?gid (k - 0)))"
    by (rule generateCode_from_in_progress) (use inprog k in auto)
  then have run: "generateCode w cfg ?arn ?gid ?s2 =
           (Inr [], after ?s2 (inProgressRounds cfg ?arn ?gid k @ [Fire [timeoutMessage]]))"
    by (simp add: generateCode_def generateCode_from_stop[OF stop] after_after)
  have int: "CodeGenState_interact w cfg a action s =
             (Inr \<lparr>nextState = CodeGenIterationState cfg a [], interactions = []\<rparr>,
              after s
                ([generateRequest cfg a (files action) action, Fire [startedMessage]]
                 @ inProgressRounds cfg ?arn ?gid k @ [Fire [timeoutMessage]]))"
    by (rule CodeGenState_interact_accepted[OF init]) (simp add: run after_after)
  have f: "fired (inProgressRounds cfg ?arn ?gid k @ [Fire [timeoutMessage]]) = [[timeoutMessage]]"
    by simp
  have c: "statusFetches (inProgressRounds cfg ?arn ?gid k @ [Fire [timeoutMessage]]) = k"
    by simp
  from k(1,2) have "k \<le> 60" "k = 60 \<or> isCancellationRequested w k"
    by (simp_all add: pollCount_def)
  with run0 int f c show ?thesis by blast
qed

theorem C2_polling_timeout_witness:
  "fst (CodeGenState_interact demoWorld demoConfig ''plan'' (demoAction (Some ''WRITE CODE'')) demoSys)
     = Inr \<lparr>nextState = CodeGenIterationState demoConfig ''plan'' [], interactions = []\<rparr>
   \<and> statusFetches (events (snd (CodeGenState_interact demoWorld demoConfig ''plan''
                                   (demoAction (Some ''WRITE CODE'')) demoSys))) = 60
   \<and> fired (events (snd (CodeGenState_interact demoWorld demoConfig ''plan''
                           (demoAction (Some ''WRITE CODE'')) demoSys)))
       = [[startedMessage], [timeoutMessage]]"
proof -
  let ?act = "demoAction (Some ''WRITE CODE'')"
  let ?resp = "\<lparr>GenerateCodeOutput.generationId = ''gen-1''\<rparr>"
  have h1: "invoke_generateCode demoWorld (generateArn demoConfig)
              (generateCodeInput demoConfig ''plan'' (files ?act) ?act) = Inr ?resp"
    by (simp add: demoWorld_def)
  have h2: "\<forall>n. inProgressAt demoWorld demoConfig (getResultsArn demoConfig)
                   (GenerateCodeOutput.generationId ?resp) n"
    by (simp add: inProgressAt_def demoWorld_def inProgressOutput_def)
  from C2_polling_timeout[OF h1 h2, of demoSys demoSys] obtain k where
    k: "k = 60 \<or> isCancellationRequested demoWorld k"
    and r: "CodeGenState_interact demoWorld demoConfig ''plan'' ?act demoSys =
             (Inr \<lparr>nextState = CodeGenIterationState demoConfig ''plan'' [], interactions = []\<rparr>,
              after demoSys
                ([generateRequest demoConfig ''plan'' (files ?act) ?act, Fire [startedMessage]]
                 @ inProgressRounds demoConfig (getResultsArn demoConfig)
                     (GenerateCodeOutput.generationId ?resp) k
                 @ [Fire [timeoutMessage]]))"
    by blast
  from k have k60: "k = 60" by (simp add: demoWorld_def)
  show ?thesis
    unfolding r k60
    by (simp add: after_def demoSys_def generateRequest_def)
qed

text \<open>
  C3, as stated, fails: the initiating call of \<^verbatim>\<open>CodeGenState.interact\<close> is awaited
  outside every handler, so its exception leaves \<^verbatim>\<open>interact\<close>. In the world whose
  code-generation call is rejected, \<^verbatim>\<open>interact\<close> is rejected with the same exception and
  returns no next state.
\<close>

theorem C3_initiating_call_counterexample:
  "invoke_generateCode demoWorldRejecting (generateArn demoConfig)
       (generateCodeInput demoConfig ''plan'' (files (demoAction None)) (demoAction None))
     = Inl (Error ''transport failure'')
   \<and> CodeGenState_interact demoWorldRejecting demoConfig ''plan'' (demoAction None) demoSys =
       (Inl (Error ''transport failure''),
        \<lparr>events = [generateRequest demoConfig ''plan'' demoFiles (demoAction None)],
         vfs = Map.empty\<rparr>)"
  by (simp add: CodeGenState_interact_def Let_def demoWorldRejecting_def demoWorld_def
        emit_def demoSys_def generateRequest_def generateArn_def generateCodeInput_def
        demoAction_def)

text \<open>
  C3, amended. An exception of the initiating call propagates out of
  \<^verbatim>\<open>CodeGenState.interact\<close>, after the request has been issued and before anything is
  fired. An exception of a status fetch during polling (here at iteration \<open>k\<close>, after \<open>k\<close>
  fetches that found the generation in progress) is caught inside \<^verbatim>\<open>interact\<close> and
  treated as an empty file set: a \<^verbatim>\<open>CodeGenIterationState\<close> holding no files is returned.
\<close>

theorem C3_transport_exceptions:
  "(invoke_generateCode w (generateArn cfg)
        (generateCodeInput cfg a (files action) action) = Inl e
      \<longrightarrow> CodeGenState_interact w cfg a action s =
            (Inl e, after s [generateRequest cfg a (files action) action]))
   \<and> (invoke_generateCode w (generateArn cfg)
          (generateCodeInput cfg a (files action) action) = Inr response
        \<and> k < 60
        \<and> (\<forall>n<k. inProgressAt w cfg (getResultsArn cfg)
                     (GenerateCodeOutput.generationId response) n)
        \<and> (\<forall>n\<le>k. \<not> isCancellationRequested w n)
        \<and> invoke_getCodeGenerationResult w (getResultsArn cfg)
            \<lparr>generationId = GenerateCodeOutput.generationId response,
             conversationId = SessionStateConfig.conversationId cfg\<rparr> k = Inl e'
      \<longrightarrow> CodeGenState_interact w cfg a action s =
            (Inr \<lparr>nextState = CodeGenIterationState cfg a [], interactions = []\<rparr>,
             after s
               ([generateRequest cfg a (files action) action, Fire [startedMessage]]
                @ inProgressRounds cfg (getResultsArn cfg)
                    (GenerateCodeOutput.generationId response) k
                @ [statusFetch cfg (getResultsArn cfg)
                     (GenerateCodeOutput.generationId response)])))"
proof (intro conjI impI)
  assume "invoke_generateCode w (generateArn cfg)
            (generateCodeInput cfg a (files action) action) = Inl e"
  then show "CodeGenState_interact w cfg a action s =
            (Inl e, after s [generateRequest cfg a (files action) action])"
    by (rule CodeGenState_interact_rejected)
next
  let ?arn = "getResultsArn cfg"
  let ?gid = "GenerateCodeOutput.generationId response"
  let ?s2 = "after s [generateRequest cfg a (files action) action, Fire [startedMessage]]"
  assume h: "invoke_generateCode w (generateArn cfg)
          (generateCodeInput cfg a (files action) action) = Inr response
        \<and> k < 60
        \<and> (\<forall>n<k. inProgressAt w cfg ?arn ?gid n)
        \<and> (\<forall>n\<le>k. \<not> isCancellationRequested w n)
        \<and> invoke_getCodeGenerationResult w ?arn
            \<lparr>generationId = ?gid,
             conversationId = SessionStateConfig.conversationId cfg\<rparr> k = Inl e'"
  then have lt: "k < pollCount" and nc: "\<not> isCancellationRequested w k"
    by (simp_all add: pollCount_def)
  from h have thrown: "invoke_getCodeGenerationResult w ?arn
            \<lparr>generationId = ?gid,
             conversationId = SessionStateConfig.conversationId cfg\<rparr> k = Inl e'"
    by simp
  from h have init: "invoke_generateCode w (generateArn cfg)
          (generateCodeInput cfg a (files action) action) = Inr response"
    by simp
  have "generateCode_from w cfg ?arn ?gid 0 ?s2 =
          generateCode_from w cfg ?arn ?gid k (after ?s2 (inProgressRounds cfg ?arn ?gid (k - 0)))"
    by (rule generateCode_from_in_progress) (use h lt in auto)
  then have "generateCode w cfg ?arn ?gid ?s2 =
           (Inl e', after ?s2 (inProgressRounds cfg ?arn ?gid k @ [statusFetch cfg ?arn ?gid]))"
    by (simp add: generateCode_def generateCode_from_throws[OF lt nc thrown] after_after)
  then have "catch_empty (generateCode w cfg ?arn ?gid ?s2) =
           ([], after s
               ([generateRequest cfg a (files action) action, Fire [startedMessage]]
                @ inProgressRounds cfg ?arn ?gid k @ [statusFetch cfg ?arn ?gid]))"
    by (simp add: after_after)
  then show "CodeGenState_interact w cfg a action s =
            (Inr \<lparr>nextState = CodeGenIterationState cfg a [], interactions = []\<rparr>,
             after s
               ([generateRequest cfg a (files action) action, Fire [startedMessage]]
                @ inProgressRounds cfg ?arn ?gid k @ [statusFetch cfg ?arn ?gid]))"
    by (rule CodeGenState_interact_accepted[OF init])
qed

theorem C3_transport_exceptions_witness:
  "CodeGenState_interact demoWorldRejecting demoConfig ''plan'' (demoAction None) demoSys =
     (Inl (Error ''transport failure''),
      \<lparr>events = [generateRequest demoConfig ''plan'' demoFiles (demoAction None)],
       vfs = Map.empty\<rparr>)
   \<and> CodeGenState_interact (demoWorldThen (Inl (Error ''socket hang up''))) demoConfig ''plan''
       (demoAction None) demoSys =
       (Inr \<lparr>nextState = CodeGenIterationState demoConfig ''plan'' [], interactions = []\<rparr>,
        \<lparr>events =
           [generateRequest demoConfig ''plan'' demoFiles (demoAction None),
            Fire [startedMessage],
            statusFetch demoConfig ''arn:codegen-getResults'' ''gen-1'', Delay 10000,
            statusFetch demoConfig ''arn:codegen-getResults'' ''gen-1'', Delay 10000,
            statusFetch demoConfig ''arn:codegen-getResults'' ''gen-1''],
         vfs = Map.empty\<rparr>)"
proof -
  let ?act = "demoAction None"
  let ?w = "demoWorldThen (Inl (Error ''socket hang up''))"
  let ?resp = "\<lparr>GenerateCodeOutput.generationId = ''gen-1''\<rparr>"
  have a: "invoke_generateCode demoWorldRejecting (generateArn demoConfig)
             (generateCodeInput demoConfig ''plan'' (files ?act) ?act)
           = Inl (Error ''transport failure'')"
    by (simp add: demoWorldRejecting_def demoWorld_def)
  have b: "invoke_generateCode ?w (generateArn demoConfig)
             (generateCodeInput demoConfig ''plan'' (files ?act) ?act) = Inr ?resp
        \<and> (2::nat) < 60
        \<and> (\<forall>n<2. inProgressAt ?w demoConfig (getResultsArn demoConfig)
                     (GenerateCodeOutput.generationId ?resp) n)
        \<and> (\<forall>n\<le>2. \<not> isCancellationRequested ?w n)
        \<and> invoke_getCodeGenerationResult ?w (getResultsArn demoConfig)
            \<lparr>generationId = GenerateCodeOutput.generationId ?resp,
             conversationId = SessionStateConfig.conversationId demoConfig\<rparr> 2
            = Inl (Error ''socket hang up'')"
    by (simp add: demoWorldThen_def demoWorld_def inProgressAt_def inProgressOutput_def)
  have g: "getResultsArn demoConfig = ''arn:codegen-getResults''"
    by (simp add: getResultsArn_def demoConfig_def demoBackend_def)
  have f: "files ?act = demoFiles" by (simp add: demoAction_def)
  from C3_transport_exceptions[of demoWorldRejecting demoConfig "''plan''" ?act
         "Error ''transport failure''" demoSys] a
  have 1: "CodeGenState_interact demoWorldRejecting demoConfig ''plan'' ?act demoSys =
            (Inl (Error ''transport failure''),
             after demoSys [generateRequest demoConfig ''plan'' (files ?act) ?act])"
    by blast
  from C3_transport_exceptions[of ?w demoConfig "''plan''" ?act _ demoSys ?resp 2
         "Error ''socket hang up''"] b
  have 2: "CodeGenState_interact ?w demoConfig ''plan'' ?act demoSys =
            (Inr \<lparr>nextState = CodeGenIterationState demoConfig ''plan'' [], interactions = []\<rparr>,
             after demoSys
               ([generateRequest demoConfig ''plan'' (files ?act) ?act, Fire [startedMessage]]
                @ inProgressRounds demoConfig (getResultsArn demoConfig)
                    (GenerateCodeOutput.generationId ?resp) 2
                @ [statusFetch demoConfig (getResultsArn demoConfig)
                     (GenerateCodeOutput.generationId ?resp)]))"
    by blast
  show ?thesis
    unfolding 1 2
    by (simp add: after_def demoSys_def g f inProgressRounds_def numeral_2_eq_2)
qed

text \<open>
  C4. The sentinel test of \<^verbatim>\<open>RefinementIterationState.interact\<close> is a case-sensitive
  substring test. If the message of the action contains \<^verbatim>\<open>WRITE CODE\<close> as a contiguous
  substring, \<^verbatim>\<open>interact\<close> is the \<^verbatim>\<open>interact\<close> of a new \<^verbatim>\<open>CodeGenState\<close> built
  from the same configuration and approach, on the same action. If the message contains
  neither \<^verbatim>\<open>WRITE CODE\<close> nor \<^verbatim>\<open>MOCK CODE\<close> in exactly that spelling, or there is no
  message, it is the approach iteration; if it contains \<^verbatim>\<open>MOCK CODE\<close> and not
  \<^verbatim>\<open>WRITE CODE\<close>, it is the \<^verbatim>\<open>interact\<close> of \<^verbatim>\<open>MockCodeGenState\<close>. In particular
  the lowercase \<^verbatim>\<open>write code\<close> takes the approach iteration. The approach iteration is
  never the delegation: its only effect on the trace is the approach-iteration request
  carrying the message, where the \<^verbatim>\<open>interact\<close> of \<^verbatim>\<open>CodeGenState\<close> issues the
  code-generation request.
\<close>

theorem C4_sentinel_write_code:
  "(\<forall>m. msg action = Some m \<and> sublist ''WRITE CODE'' m \<longrightarrow>
         interact w (RefinementIterationState cfg a) action s =
           interact w (CodeGenState cfg a) action s)
   \<and> (\<forall>m. msg action = Some m \<and> \<not> sublist ''WRITE CODE'' m \<and> \<not> sublist ''MOCK CODE'' m \<longrightarrow>
         interact w (RefinementIterationState cfg a) action s =
           RefinementIterationState_iterate w cfg a action s)
   \<and> (\<forall>m. msg action = Some m \<and> \<not> sublist ''WRITE CODE'' m \<and> sublist ''MOCK CODE'' m \<longrightarrow>
         interact w (RefinementIterationState cfg a) action s =
           interact w (MockCodeGenState cfg a) action s)
   \<and> (msg action = None \<longrightarrow>
         interact w (RefinementIterationState cfg a) action s =
           RefinementIterationState_iterate w cfg a action s)
   \<and> (msg action = Some ''write code'' \<longrightarrow>
         interact w (RefinementIterationState cfg a) action s =
           RefinementIterationState_iterate w cfg a action s)
   \<and> RefinementIterationState_iterate w cfg a action s \<noteq>
       interact w (CodeGenState cfg a) action s
   \<and> events (snd (RefinementIterationState_iterate w cfg a action s)) =
       events s @
       [Invoke (IterateApproach
          (ApproachArns.iterate (LambdaArns.approach (lambdaArns (backendConfig cfg))))
          \<lparr>IterateApproachInput.task = SessionStateAction.task action,
           IterateApproachInput.request = (case msg action of None \<Rightarrow> [] | Some m \<Rightarrow> m),
           IterateApproachInput.approach = a,
           IterateApproachInput.originalFileContents = files action,
           IterateApproachInput.config = llmConfig cfg,
           IterateApproachInput.conversationId = SessionStateConfig.conversationId cfg\<rparr>)]"
proof -
  have 1: "RefinementIterationState_interact w cfg a action s =
             CodeGenState_interact w cfg a action s"
    if "msg action = Some m" "sublist ''WRITE CODE'' m" for m
    using msgHas_sentinel[OF that(2)] that(1)
    by (simp add: RefinementIterationState_interact_def)
  have 2: "RefinementIterationState_interact w cfg a action s =
             RefinementIterationState_iterate w cfg a action s"
    if "msg action = Some m" "\<not> sublist ''WRITE CODE'' m" "\<not> sublist ''MOCK CODE'' m" for m
    by (rule RefinementIterationState_interact_no_sentinel) (simp_all add: that msgHas_sublist)
  have 3: "RefinementIterationState_interact w cfg a action s =
             MockCodeGenState_interact w cfg a action s"
    if "msg action = Some m" "\<not> sublist ''WRITE CODE'' m" "sublist ''MOCK CODE'' m" for m
    using msgHas_sentinel[OF that(3)] that(1,2)
    by (simp add: RefinementIterationState_interact_def msgHas_sublist)
  have 4: "RefinementIterationState_interact w cfg a action s =
             RefinementIterationState_iterate w cfg a action s"
    if "msg action = None"
    by (rule RefinementIterationState_interact_no_sentinel) (simp_all add: that msgHas_def)
  have lw: "\<not> sublist ''WRITE CODE'' ''write code''"
    unfolding indexOf_sublist[symmetric] by (simp add: indexOf_def)
  have lm: "\<not> sublist ''MOCK CODE'' ''write code''"
    unfolding indexOf_sublist[symmetric] by (simp add: indexOf_def)
  have 5: "RefinementIterationState_interact w cfg a action s =
             RefinementIterationState_iterate w cfg a action s"
    if "msg action = Some ''write code''"
    using 2[OF that lw lm] .
  note 6 = RefinementIterationState_iterate_not_CodeGen[of w cfg a action s]
  note 7 = RefinementIterationState_iterate_events[of w cfg a action s]
  from 1 2 3 4 5 6 7 show ?thesis by simp
qed

theorem C4_sentinel_write_code_witness:
  "interact demoWorld (RefinementIterationState demoConfig ''plan'')
     (demoAction (Some ''please WRITE CODE now'')) demoSys =
   interact demoWorld (CodeGenState demoConfig ''plan'')
     (demoAction (Some ''please WRITE CODE now'')) demoSys
   \<and> interact demoWorld (RefinementIterationState demoConfig ''plan'')
       (demoAction (Some ''please write code now'')) demoSys =
     RefinementIterationState_iterate demoWorld demoConfig ''plan''
       (demoAction (Some ''please write code now'')) demoSys
   \<and> interact demoWorld (RefinementIterationState demoConfig ''plan'')
       (demoAction (Some ''Write Code'')) demoSys =
     RefinementIterationState_iterate demoWorld demoConfig ''plan''
       (demoAction (Some ''Write Code'')) demoSys
   \<and> interact demoWorld (RefinementIterationState demoConfig ''plan'')
       (demoAction (Some ''run the MOCK CODE'')) demoSys =
     interact demoWorld (MockCodeGenState demoConfig ''plan'')
       (demoAction (Some ''run the MOCK CODE'')) demoSys
   \<and> interact demoWorld (RefinementIterationState demoConfig ''plan'')
       (demoAction None) demoSys =
     RefinementIterationState_iterate demoWorld demoConfig ''plan'' (demoAction None) demoSys
   \<and> interact demoWorld (RefinementIterationState demoConfig ''plan'')
       (demoAction (Some ''write code'')) demoSys =
     (Inr \<lparr>nextState = RefinementIterationState demoConfig ''Add two buttons'',
           interactions = [\<lparr>origin = ai, itype = message,
                             content = Text ''Add two buttons\<newline>''\<rparr>]\<rparr>,
      \<lparr>events =
         [Invoke (IterateApproach ''arn:approach-iterate''
            \<lparr>IterateApproachInput.task = ''add a button'',
             IterateApproachInput.request = ''write code'',
             IterateApproachInput.approach = ''plan'',
             IterateApproachInput.originalFileContents = demoFiles,
             IterateApproachInput.config = demoLLM,
             IterateApproachInput.conversationId = ''conv-1''\<rparr>)],
       vfs = Map.empty\<rparr>)
   \<and> RefinementIterationState_iterate demoWorld demoConfig ''plan''
       (demoAction (Some ''write code'')) demoSys \<noteq>
     interact demoWorld (CodeGenState demoConfig ''plan'')
       (demoAction (Some ''write code'')) demoSys"
proof -
  have s1: "sublist ''WRITE CODE'' ''please WRITE CODE now''"
    using sublist_appendI[of "''WRITE CODE''" "''please ''" "'' now''"] by simp
  have n2: "\<not> sublist ''WRITE CODE'' ''please write code now''"
           "\<not> sublist ''MOCK CODE'' ''please write code now''"
    unfolding indexOf_sublist[symmetric] by (simp_all add: indexOf_def)
  have n3: "\<not> sublist ''WRITE CODE'' ''Write Code''"
           "\<not> sublist ''MOCK CODE'' ''Write Code''"
    unfolding indexOf_sublist[symmetric] by (simp_all add: indexOf_def)
  have n4: "\<not> sublist ''WRITE CODE'' ''run the MOCK CODE''"
    unfolding indexOf_sublist[symmetric] by (simp add: indexOf_def)
  have s4: "sublist ''MOCK CODE'' ''run the MOCK CODE''"
    using sublist_appendI[of "''MOCK CODE''" "''run the ''" "[]"] by simp
  have m: "msg (demoAction x) = x" for x
    by (simp add: demoAction_def)
  have it: "RefinementIterationState_iterate demoWorld demoConfig ''plan''
          (demoAction (Some ''write code'')) demoSys =
     (Inr \<lparr>nextState = RefinementIterationState demoConfig ''Add two buttons'',
           interactions = [\<lparr>origin = ai, itype = message,
                             content = Text ''Add two buttons\<newline>''\<rparr>]\<rparr>,
      \<lparr>events =
         [Invoke (IterateApproach ''arn:approach-iterate''
            \<lparr>IterateApproachInput.task = ''add a button'',
             IterateApproachInput.request = ''write code'',
             IterateApproachInput.approach = ''plan'',
             IterateApproachInput.originalFileContents = demoFiles,
             IterateApproachInput.config = demoLLM,
             IterateApproachInput.conversationId = ''conv-1''\<rparr>)],
       vfs = Map.empty\<rparr>)"
    by (simp add: RefinementIterationState_iterate_def Let_def demoWorld_def demoAction_def
          demoConfig_def demoBackend_def demoSys_def emit_def)
  note t = C4_sentinel_write_code[of _ demoWorld demoConfig "''plan''" demoSys]
  from t[of "demoAction (Some ''please WRITE CODE now'')"] s1
  have a: "interact demoWorld (RefinementIterationState demoConfig ''plan'')
     (demoAction (Some ''please WRITE CODE now'')) demoSys =
   interact demoWorld (CodeGenState demoConfig ''plan'')
     (demoAction (Some ''please WRITE CODE now'')) demoSys"
    by (simp add: m)
  from t[of "demoAction (Some ''please write code now'')"] n2
  have b: "interact demoWorld (RefinementIterationState demoConfig ''plan'')
       (demoAction (Some ''please write code now'')) demoSys =
     RefinementIterationState_iterate demoWorld demoConfig ''plan''
       (demoAction (Some ''please write code now'')) demoSys"
    by (simp add: m)
  from t[of "demoAction (Some ''Write Code'')"] n3
  have c: "interact demoWorld (RefinementIterationState demoConfig ''plan'')
       (demoAction (Some ''Write Code'')) demoSys =
     RefinementIterationState_iterate demoWorld demoConfig ''plan''
       (demoAction (Some ''Write Code'')) demoSys"
    by (simp add: m)
  from t[of "demoAction (Some ''run the MOCK CODE'')"] n4 s4
  have d: "interact demoWorld (RefinementIterationState demoConfig ''plan'')
       (demoAction (Some ''run the MOCK CODE'')) demoSys =
     interact demoWorld (MockCodeGenState demoConfig ''plan'')
       (demoAction (Some ''run the MOCK CODE'')) demoSys"
    by (simp add: m)
  from t[of "demoAction None"]
  have e: "interact demoWorld (RefinementIterationState demoConfig ''plan'')
       (demoAction None) demoSys =
     RefinementIterationState_iterate demoWorld demoConfig ''plan'' (demoAction None) demoSys"
    by (simp add: m)
  from t[of "demoAction (Some ''write code'')"]
  have f: "interact demoWorld (RefinementIterationState demoConfig ''plan'')
       (demoAction (Some ''write code'')) demoSys =
     RefinementIterationState_iterate demoWorld demoConfig ''plan''
       (demoAction (Some ''write code'')) demoSys"
     and g: "RefinementIterationState_iterate demoWorld demoConfig ''plan''
       (demoAction (Some ''write code'')) demoSys \<noteq>
     interact demoWorld (CodeGenState demoConfig ''plan'')
       (demoAction (Some ''write code'')) demoSys"
    by (simp_all add: m)
  from a b c d e f g show ?thesis
    unfolding it by simp
qed

text \<open>
  C5. On a platform that parses the blob \<^verbatim>\<open>{"version":2,"endpoint":"https://x"}\<close> to
  the object it denotes, the first resolution yields the default map with the endpoint
  replaced by \<^verbatim>\<open>https://x\<close> (every lambda ARN is the built-in default). The blob
  \<^verbatim>\<open>{"version":1}\<close> and every text that \<^verbatim>\<open>JSON.parse\<close> rejects yield the default
  map. Whatever the platform, the cache and the environment are, \<^verbatim>\<open>getConfig\<close>
  returns a configuration and does not throw.
\<close>

theorem C5_config_resolution:
  \<open>(JSON_parse p ''{"version":2,"endpoint":"https://x"}'' =
        Inr (JObject [(''version'', JNumber (Finite 2)), (''endpoint'', JString ''https://x'')])
      \<and> Number_parseInt p (JNumber (Finite 2)) = Inr (Finite 2)
      \<longrightarrow> getConfig p None (Some ''{"version":2,"endpoint":"https://x"}'') =
            (Inr (defaultConfig\<lparr>endpoint := JString ''https://x''\<rparr>),
             Some (defaultConfig\<lparr>endpoint := JString ''https://x''\<rparr>)))
   \<and> (JSON_parse p ''{"version":1}'' = Inr (JObject [(''version'', JNumber (Finite 1))])
      \<and> Number_parseInt p (JNumber (Finite 1)) = Inr (Finite 1)
      \<longrightarrow> getConfig p None (Some ''{"version":1}'') = (Inr defaultConfig, Some defaultConfig))
   \<and> ((\<exists>e. JSON_parse p malformed = Inl e)
      \<longrightarrow> getConfig p None (Some malformed) = (Inr defaultConfig, Some defaultConfig))
   \<and> (\<exists>c. fst (getConfig p cachedConfig env) = Inr c)\<close>
proof (intro conjI impI)
  assume \<open>JSON_parse p ''{"version":2,"endpoint":"https://x"}'' =
        Inr (JObject [(''version'', JNumber (Finite 2)), (''endpoint'', JString ''https://x'')])
      \<and> Number_parseInt p (JNumber (Finite 2)) = Inr (Finite 2)\<close>
  then show \<open>getConfig p None (Some ''{"version":2,"endpoint":"https://x"}'') =
            (Inr (defaultConfig\<lparr>endpoint := JString ''https://x''\<rparr>),
             Some (defaultConfig\<lparr>endpoint := JString ''https://x''\<rparr>))\<close>
    by (simp add: getConfig_fresh resolveConfig_version2_endpoint)
next
  assume \<open>JSON_parse p ''{"version":1}'' = Inr (JObject [(''version'', JNumber (Finite 1))])
      \<and> Number_parseInt p (JNumber (Finite 1)) = Inr (Finite 1)\<close>
  then obtain e where \<open>resolveConfig p (Some ''{"version":1}'') = Inl e\<close>
    using resolveConfig_version1 by blast
  then show \<open>getConfig p None (Some ''{"version":1}'') = (Inr defaultConfig, Some defaultConfig)\<close>
    by (simp add: getConfig_fresh)
next
  assume "\<exists>e. JSON_parse p malformed = Inl e"
  then obtain e where "resolveConfig p (Some malformed) = Inl e"
    using resolveConfig_unparseable by blast
  then show "getConfig p None (Some malformed) = (Inr defaultConfig, Some defaultConfig)"
    by (simp add: getConfig_fresh)
next
  show "\<exists>c. fst (getConfig p cachedConfig env) = Inr c"
    by (simp add: getConfig_def Let_def split: option.splits)
qed

theorem C5_config_resolution_witness:
  "getConfig demoPlatform None (Some blobVersion2) =
     (Inr (defaultConfig\<lparr>endpoint := JString ''https://x''\<rparr>),
      Some (defaultConfig\<lparr>endpoint := JString ''https://x''\<rparr>))
   \<and> getConfig demoPlatform None (Some blobVersion1) = (Inr defaultConfig, Some defaultConfig)
   \<and> getConfig demoPlatform None (Some blobMalformed) = (Inr defaultConfig, Some defaultConfig)
   \<and> (\<exists>c. fst (getConfig demoPlatform (Some (defaultConfig\<lparr>region := JString ''eu-west-1''\<rparr>))
                   (Some blobVersion2)) = Inr c)"
proof -
  have 1: \<open>JSON_parse demoPlatform ''{"version":2,"endpoint":"https://x"}'' =
        Inr (JObject [(''version'', JNumber (Finite 2)), (''endpoint'', JString ''https://x'')])
      \<and> Number_parseInt demoPlatform (JNumber (Finite 2)) = Inr (Finite 2)\<close>
    by (simp add: demoPlatform_def blobVersion2_def)
  have 2: \<open>JSON_parse demoPlatform ''{"version":1}'' = Inr (JObject [(''version'', JNumber (Finite 1))])
      \<and> Number_parseInt demoPlatform (JNumber (Finite 1)) = Inr (Finite 1)\<close>
    by (simp add: demoPlatform_def blobVersion2_def blobVersion1_def)
  have 3: "\<exists>e. JSON_parse demoPlatform blobMalformed = Inl e"
    by (simp add: demoPlatform_def blobVersion2_def blobVersion1_def blobMalformed_def)
  note t = C5_config_resolution[of demoPlatform blobMalformed
             "Some (defaultConfig\<lparr>region := JString ''eu-west-1''\<rparr>)" "Some blobVersion2"]
  from t 1 have a: \<open>getConfig demoPlatform None (Some ''{"version":2,"endpoint":"https://x"}'') =
            (Inr (defaultConfig\<lparr>endpoint := JString ''https://x''\<rparr>),
             Some (defaultConfig\<lparr>endpoint := JString ''https://x''\<rparr>))\<close>
    by blast
  from t 2 have b: \<open>getConfig demoPlatform None (Some ''{"version":1}'') =
            (Inr defaultConfig, Some defaultConfig)\<close>
    by blast
  from t 3 have c: "getConfig demoPlatform None (Some blobMalformed) =
            (Inr defaultConfig, Some defaultConfig)"
    by blast
  from t have d: "\<exists>c. fst (getConfig demoPlatform
                     (Some (defaultConfig\<lparr>region := JString ''eu-west-1''\<rparr>))
                     (Some blobVersion2)) = Inr c"
    by blast
  from a b c d show ?thesis
    by (simp add: blobVersion2_def blobVersion1_def)
qed

text \<open>
  C6. Let the initiating call succeed, the token not be cancelled, the first status fetch
  answer \<^verbatim>\<open>ready\<close> with the one file \<^verbatim>\<open>{a.txt, "1"}\<close>, and the registration of that
  file succeed. Then \<^verbatim>\<open>CodeGenState.interact\<close> fires, after the start message, one batch
  made of the fixed confirmation message followed by the summary listing exactly
  \<^verbatim>\<open>a.txt\<close>, and returns a \<^verbatim>\<open>CodeGenIterationState\<close> holding exactly that file. The
  interactions are delivered through \<^verbatim>\<open>onAddToHistory\<close>; the list returned in the field
  \<^verbatim>\<open>interactions\<close> is empty.
\<close>

theorem C6_ready_first_poll:
  assumes init:
      "invoke_generateCode w (generateArn cfg)
         (generateCodeInput cfg a (files action) action) = Inr response"
    and running: "\<not> isCancellationRequested w 0"
    and ready:
      "invoke_getCodeGenerationResult w (getResultsArn cfg)
         \<lparr>generationId = GenerateCodeOutput.generationId response,
          conversationId = SessionStateConfig.conversationId cfg\<rparr> 0 =
         Inr \<lparr>codeGenerationStatus = ''ready'',
              result = Some \<lparr>newFileContents =
                Some [\<lparr>filePath = ''a.txt'', fileContent = ''1''\<rparr>]\<rparr>\<rparr>"
    and registered:
      "registerProvider w (vfs s) \<lparr>scheme = weaverbirdScheme w, path = ''a.txt''\<rparr> ''1'' = Inr fs'"
  shows "CodeGenState_interact w cfg a action s =
           (Inr \<lparr>nextState = CodeGenIterationState cfg a
                                [\<lparr>filePath = ''a.txt'', fileContent = ''1''\<rparr>],
                 interactions = []\<rparr>,
            \<lparr>events = events s @
               [generateRequest cfg a (files action) action,
                Fire [startedMessage],
                statusFetch cfg (getResultsArn cfg) (GenerateCodeOutput.generationId response),
                Fire [confirmationMessage, codegenSummary [''a.txt'']]],
             vfs = fs'\<rparr>)"
proof -
  let ?s2 = "after s [generateRequest cfg a (files action) action, Fire [startedMessage]]"
  let ?s3 = "after ?s2 [statusFetch cfg (getResultsArn cfg) (GenerateCodeOutput.generationId response)]"
  have lt: "0 < pollCount" by (simp add: pollCount_def)
  have cc: "createChanges w [\<lparr>filePath = ''a.txt'', fileContent = ''1''\<rparr>] ?s3 =
              (Inr [confirmationMessage, codegenSummary [''a.txt'']], ?s3\<lparr>vfs := fs'\<rparr>)"
    using registered
    by (simp add: createChanges_def after_def confirmationMessage_def codegenSummary_def)
  have "generateCode w cfg (getResultsArn cfg) (GenerateCodeOutput.generationId response) ?s2 =
          (Inr [\<lparr>filePath = ''a.txt'', fileContent = ''1''\<rparr>],
           after (?s3\<lparr>vfs := fs'\<rparr>) [Fire [confirmationMessage, codegenSummary [''a.txt'']]])"
    unfolding generateCode_def
    by (subst generateCode_from_ready[OF lt running ready]) (simp_all add: cc)
  then have "catch_empty
           (generateCode w cfg (getResultsArn cfg) (GenerateCodeOutput.generationId response) ?s2)
         = ([\<lparr>filePath = ''a.txt'', fileContent = ''1''\<rparr>],
            \<lparr>events = events s @
               [generateRequest cfg a (files action) action,
                Fire [startedMessage],
                statusFetch cfg (getResultsArn cfg) (GenerateCodeOutput.generationId response),
                Fire [confirmationMessage, codegenSummary [''a.txt'']]],
             vfs = fs'\<rparr>)"
    by (simp add: after_def)
  then show ?thesis
    by (rule CodeGenState_interact_accepted[OF init])
qed

theorem C6_ready_first_poll_witness:
  "CodeGenState_interact demoWorldReady demoConfig ''plan'' (demoAction (Some ''WRITE CODE''))
     demoSys =
     (Inr \<lparr>nextState = CodeGenIterationState demoConfig ''plan''
                          [\<lparr>filePath = ''a.txt'', fileContent = ''1''\<rparr>],
           interactions = []\<rparr>,
      \<lparr>events =
         [generateRequest demoConfig ''plan'' demoFiles (demoAction (Some ''WRITE CODE'')),
          Fire [startedMessage],
          statusFetch demoConfig ''arn:codegen-getResults'' ''gen-1'',
          Fire [confirmationMessage, codegenSummary [''a.txt'']]],
       vfs = [\<lparr>scheme = ''weaverbird'', path = ''a.txt''\<rparr> \<mapsto> ''1'']\<rparr>)"
proof -
  let ?act = "demoAction (Some ''WRITE CODE'')"
  let ?resp = "\<lparr>GenerateCodeOutput.generationId = ''gen-1''\<rparr>"
  have h1: "invoke_generateCode demoWorldReady (generateArn demoConfig)
              (generateCodeInput demoConfig ''plan'' (files ?act) ?act) = Inr ?resp"
    by (simp add: demoWorldReady_def demoWorld_def)
  have h2: "\<not> isCancellationRequested demoWorldReady 0"
    by (simp add: demoWorldReady_def demoWorld_def)
  have h3: "invoke_getCodeGenerationResult demoWorldReady (getResultsArn demoConfig)
         \<lparr>generationId = GenerateCodeOutput.generationId ?resp,
          conversationId = SessionStateConfig.conversationId demoConfig\<rparr> 0 =
         Inr \<lparr>codeGenerationStatus = ''ready'',
              result = Some \<lparr>newFileContents =
                Some [\<lparr>filePath = ''a.txt'', fileContent = ''1''\<rparr>]\<rparr>\<rparr>"
    by (simp add: demoWorldReady_def demoWorld_def)
  have h4: "registerProvider demoWorldReady (vfs demoSys)
              \<lparr>scheme = weaverbirdScheme demoWorldReady, path = ''a.txt''\<rparr> ''1''
            = Inr [\<lparr>scheme = ''weaverbird'', path = ''a.txt''\<rparr> \<mapsto> ''1'']"
    by (simp add: demoWorldReady_def demoWorld_def demoSys_def)
  show ?thesis
    using C6_ready_first_poll[OF h1 h2 h3 h4]
    by (simp add: demoSys_def demoAction_def getResultsArn_def demoConfig_def demoBackend_def)
qed

text \<open>
  C7. Let the status fetch of polling iteration \<open>k < 60\<close> return a status other than
  \<^verbatim>\<open>ready\<close> and \<^verbatim>\<open>in-progress\<close> (that is, \<^verbatim>\<open>failed\<close> or an unrecognized value), the
  earlier fetches having found the generation in progress and the token not being
  cancelled. Then the polling cycle ends with that fetch: the trace is the \<open>k\<close> earlier
  rounds, the fetch, and one fired batch holding the one diagnostic message of the
  condition; there are \<open>k + 1\<close> fetches in all, and the result is the empty file list.
\<close>

theorem C7_failed_or_unknown_stops:
  assumes ceiling: "k < 60"
    and before: "\<forall>n<k. inProgressAt w cfg arn genId n"
    and running: "\<forall>n\<le>k. \<not> isCancellationRequested w n"
    and fetch: "invoke_getCodeGenerationResult w arn
                  \<lparr>generationId = genId,
                   conversationId = SessionStateConfig.conversationId cfg\<rparr> k = Inr r"
    and status: "codeGenerationStatus r \<noteq> ''ready''" "codeGenerationStatus r \<noteq> ''in-progress''"
  shows "generateCode w cfg arn genId s =
           (Inr [],
            after s
              (inProgressRounds cfg arn genId k
               @ [statusFetch cfg arn genId,
                  Fire [if codeGenerationStatus r = ''failed'' then failedMessage
                        else unknownStatusMessage (codeGenerationStatus r)]]))
       \<and> statusFetches
           (inProgressRounds cfg arn genId k
            @ [statusFetch cfg arn genId,
               Fire [if codeGenerationStatus r = ''failed'' then failedMessage
                     else unknownStatusMessage (codeGenerationStatus r)]]) = Suc k
       \<and> fired
           (inProgressRounds cfg arn genId k
            @ [statusFetch cfg arn genId,
               Fire [if codeGenerationStatus r = ''failed'' then failedMessage
                     else unknownStatusMessage (codeGenerationStatus r)]])
         = [[if codeGenerationStatus r = ''failed'' then failedMessage
             else unknownStatusMessage (codeGenerationStatus r)]]"
proof -
  have lt: "k < pollCount" using ceiling by (simp add: pollCount_def)
  have nc: "\<not> isCancellationRequested w k" using running by simp
  have "generateCode_from w cfg arn genId 0 s =
          generateCode_from w cfg arn genId k (after s (inProgressRounds cfg arn genId (k - 0)))"
    by (rule generateCode_from_in_progress) (use before running lt in auto)
  then have "generateCode w cfg arn genId s =
           (Inr [],
            after s
              (inProgressRounds cfg arn genId k
               @ [statusFetch cfg arn genId,
                  Fire [if codeGenerationStatus r = ''failed'' then failedMessage
                        else unknownStatusMessage (codeGenerationStatus r)]]))"
    by (simp add: generateCode_def generateCode_from_terminal[OF lt nc fetch status] after_after)
  then show ?thesis
    by (simp add: statusFetch_def)
qed

theorem C7_failed_or_unknown_stops_witness:
  "generateCode (demoWorldThen (Inr \<lparr>codeGenerationStatus = ''failed'', result = None\<rparr>))
     demoConfig ''arn:codegen-getResults'' ''gen-1'' demoSys =
     (Inr [],
      \<lparr>events =
         [statusFetch demoConfig ''arn:codegen-getResults'' ''gen-1'', Delay 10000,
          statusFetch demoConfig ''arn:codegen-getResults'' ''gen-1'', Delay 10000,
          statusFetch demoConfig ''arn:codegen-getResults'' ''gen-1'',
          Fire [failedMessage]],
       vfs = Map.empty\<rparr>)
   \<and> generateCode (demoWorldThen (Inr \<lparr>codeGenerationStatus = ''throttled'', result = None\<rparr>))
       demoConfig ''arn:codegen-getResults'' ''gen-1'' demoSys =
       (Inr [],
        \<lparr>events =
           [statusFetch demoConfig ''arn:codegen-getResults'' ''gen-1'', Delay 10000,
            statusFetch demoConfig ''arn:codegen-getResults'' ''gen-1'', Delay 10000,
            statusFetch demoConfig ''arn:codegen-getResults'' ''gen-1'',
            Fire [unknownStatusMessage ''throttled'']],
         vfs = Map.empty\<rparr>)"
proof -
  let ?failed = "\<lparr>codeGenerationStatus = ''failed'', result = None\<rparr>"
  let ?odd = "\<lparr>codeGenerationStatus = ''throttled'', result = None\<rparr>"
  have k: "(2::nat) < 60" by simp
  have b: "\<forall>n<2. inProgressAt (demoWorldThen answer) demoConfig ''arn:codegen-getResults''
                    ''gen-1'' n" for answer
    by (simp add: inProgressAt_def demoWorldThen_def demoWorld_def inProgressOutput_def)
  have c: "\<forall>n\<le>2. \<not> isCancellationRequested (demoWorldThen answer) n" for answer
    by (simp add: demoWorldThen_def demoWorld_def)
  have f: "invoke_getCodeGenerationResult (demoWorldThen (Inr out)) ''arn:codegen-getResults''
             \<lparr>generationId = ''gen-1'',
              conversationId = SessionStateConfig.conversationId demoConfig\<rparr> 2 = Inr out" for out
    by (simp add: demoWorldThen_def demoWorld_def)
  have s1: "codeGenerationStatus ?failed \<noteq> ''ready''"
           "codeGenerationStatus ?failed \<noteq> ''in-progress''"
    by simp_all
  have s2: "codeGenerationStatus ?odd \<noteq> ''ready''"
           "codeGenerationStatus ?odd \<noteq> ''in-progress''"
    by simp_all
  show ?thesis
    using C7_failed_or_unknown_stops[OF k b c f s1, of demoSys]
          C7_failed_or_unknown_stops[OF k b c f s2, of demoSys]
    by (simp add: inProgressRounds_def after_def demoSys_def numeral_2_eq_2)
qed

text \<open>
  C8. If \<^verbatim>\<open>fs.stat\<close> of the mock directory throws or reports no directory, or
  \<^verbatim>\<open>collectFiles\<close> throws, then \<^verbatim>\<open>MockCodeGenState.interact\<close> does not throw: it
  returns a \<^verbatim>\<open>CodeGenIterationState\<close> holding no files (with the confirmation message
  and an empty summary) and leaves the system state as it was.
\<close>

theorem C8_mock_directory_missing:
  assumes "(\<exists>e. fs_stat w (path_join w (workspaceRoot cfg) ''./mock-data'') = Inl e)
         \<or> fs_stat w (path_join w (workspaceRoot cfg) ''./mock-data'') = Inr False
         \<or> (\<exists>e. collectFiles w (path_join w (workspaceRoot cfg) ''./mock-data'') = Inl e)"
  shows "MockCodeGenState_interact w cfg a action s =
           (Inr \<lparr>nextState = CodeGenIterationState cfg a [],
                 interactions = [confirmationMessage, codegenSummary []]\<rparr>,
            s)"
proof -
  let ?dir = "path_join w (workspaceRoot cfg) ''./mock-data''"
  have empty: "(case fs_stat w ?dir of
               Inl e \<Rightarrow> []
             | Inr mockDirectoryExists \<Rightarrow>
                 if mockDirectoryExists then
                   (case collectFiles w ?dir of
                      Inl e \<Rightarrow> []
                    | Inr fs \<Rightarrow>
                        map (\<lambda>f. \<lparr>filePath = replace (filePath f) ''mock-data/'' [],
                                  fileContent = fileContent f\<rparr>) fs)
                 else []) = []"
    using assms by (auto split: sum.splits)
  have cc: "createChanges w [] s = (Inr [confirmationMessage, codegenSummary []], s)"
    by (simp add: createChanges_def confirmationMessage_def codegenSummary_def)
  show ?thesis
    by (simp add: MockCodeGenState_interact_def Let_def empty cc)
qed

theorem C8_mock_directory_missing_witness:
  "MockCodeGenState_interact demoWorld demoConfig ''plan'' (demoAction (Some ''MOCK CODE''))
     demoSys =
     (Inr \<lparr>nextState = CodeGenIterationState demoConfig ''plan'' [],
           interactions = [confirmationMessage, codegenSummary []]\<rparr>,
      demoSys)
   \<and> MockCodeGenState_interact demoWorldUnreadable demoConfig ''plan''
       (demoAction (Some ''MOCK CODE'')) demoSys =
       (Inr \<lparr>nextState = CodeGenIterationState demoConfig ''plan'' [],
             interactions = [confirmationMessage, codegenSummary []]\<rparr>,
        demoSys)"
proof -
  have 1: "(\<exists>e. fs_stat demoWorld
                  (path_join demoWorld (workspaceRoot demoConfig) ''./mock-data'') = Inl e)
         \<or> fs_stat demoWorld
              (path_join demoWorld (workspaceRoot demoConfig) ''./mock-data'') = Inr False
         \<or> (\<exists>e. collectFiles demoWorld
                   (path_join demoWorld (workspaceRoot demoConfig) ''./mock-data'') = Inl e)"
    by (simp add: demoWorld_def)
  have 2: "(\<exists>e. fs_stat demoWorldUnreadable
                  (path_join demoWorldUnreadable (workspaceRoot demoConfig) ''./mock-data'') = Inl e)
         \<or> fs_stat demoWorldUnreadable
              (path_join demoWorldUnreadable (workspaceRoot demoConfig) ''./mock-data'') = Inr False
         \<or> (\<exists>e. collectFiles demoWorldUnreadable
                   (path_join demoWorldUnreadable (workspaceRoot demoConfig) ''./mock-data'') = Inl e)"
    by (simp add: demoWorldUnreadable_def demoWorld_def)
  show ?thesis
    using C8_mock_directory_missing[OF 1] C8_mock_directory_missing[OF 2] by simp
qed

text \<open>
  C9. When the approach-generation call succeeds, \<^verbatim>\<open>RefinementState.interact\<close> returns
  a \<^verbatim>\<open>RefinementIterationState\<close> that carries the approach of the response and the
  configuration extended with the conversation id of the response, and exactly one
  interaction: an AI message whose content is the approach followed by a newline. If the
  response has no approach, the fixed fallback text stands in both places.
\<close>

theorem C9_refinement_interact:
  assumes "invoke_generateApproach w
             (ApproachArns.generate (LambdaArns.approach (lambdaArns (backendConfig cfg))))
             \<lparr>GenerateApproachInput.task = SessionStateAction.task action,
              GenerateApproachInput.originalFileContents = files action,
              GenerateApproachInput.config = llmConfig cfg\<rparr> = Inr response"
    and "text = (case GenerateApproachOutput.approach response of
                   Some t \<Rightarrow> t
                 | None \<Rightarrow> ''There has been a problem generating an approach. Please type 'CLEAR' and start over.'')"
  shows "RefinementState_interact w cfg a0 action s =
           (Inr \<lparr>nextState =
                   RefinementIterationState
                     \<lparr>llmConfig = llmConfig cfg,
                      workspaceRoot = workspaceRoot cfg,
                      backendConfig = backendConfig cfg,
                      SessionStateConfig.conversationId =
                        GenerateApproachOutput.conversationId response\<rparr>
                     text,
                 interactions =
                   [\<lparr>origin = ai, itype = message, content = Text (text @ ''\<newline>'')\<rparr>]\<rparr>,
            after s
              [Invoke (GenerateApproach
                 (ApproachArns.generate (LambdaArns.approach (lambdaArns (backendConfig cfg))))
                 \<lparr>GenerateApproachInput.task = SessionStateAction.task action,
                  GenerateApproachInput.originalFileContents = files action,
                  GenerateApproachInput.config = llmConfig cfg\<rparr>)])"
  using assms
  by (simp add: RefinementState_interact_def Let_def emit_after fallbackApproach_def
        split: option.splits)

theorem C9_refinement_interact_witness:
  "RefinementState_interact demoWorld demoBase [] (demoAction None) demoSys =
     (Inr \<lparr>nextState = RefinementIterationState demoConfig ''Add a button to the form'',
           interactions = [\<lparr>origin = ai, itype = message,
                             content = Text ''Add a button to the form\<newline>''\<rparr>]\<rparr>,
      \<lparr>events = [Invoke (GenerateApproach ''arn:approach-generate''
                    \<lparr>GenerateApproachInput.task = ''add a button'',
                     GenerateApproachInput.originalFileContents = demoFiles,
                     GenerateApproachInput.config = demoLLM\<rparr>)],
       vfs = Map.empty\<rparr>)
   \<and> fst (RefinementState_interact demoWorldNoApproach demoBase [] (demoAction None) demoSys) =
       Inr \<lparr>nextState = RefinementIterationState
                          (demoConfig\<lparr>SessionStateConfig.conversationId := ''conv-2''\<rparr>)
                          ''There has been a problem generating an approach. Please type 'CLEAR' and start over.'',
             interactions = [\<lparr>origin = ai, itype = message,
               content = Text ''There has been a problem generating an approach. Please type 'CLEAR' and start over.\<newline>''\<rparr>]\<rparr>"
proof -
  let ?r1 = "\<lparr>GenerateApproachOutput.approach = Some ''Add a button to the form'',
              GenerateApproachOutput.conversationId = ''conv-1''\<rparr>"
  let ?r2 = "\<lparr>GenerateApproachOutput.approach = None,
              GenerateApproachOutput.conversationId = ''conv-2''\<rparr>"
  let ?act = "demoAction None"
  have 1: "invoke_generateApproach demoWorld
             (ApproachArns.generate (LambdaArns.approach (lambdaArns (backendConfig demoBase))))
             \<lparr>GenerateApproachInput.task = SessionStateAction.task ?act,
              GenerateApproachInput.originalFileContents = files ?act,
              GenerateApproachInput.config = llmConfig demoBase\<rparr> = Inr ?r1"
    by (simp add: demoWorld_def)
  have 2: "invoke_generateApproach demoWorldNoApproach
             (ApproachArns.generate (LambdaArns.approach (lambdaArns (backendConfig demoBase))))
             \<lparr>GenerateApproachInput.task = SessionStateAction.task ?act,
              GenerateApproachInput.originalFileContents = files ?act,
              GenerateApproachInput.config = llmConfig demoBase\<rparr> = Inr ?r2"
    by (simp add: demoWorldNoApproach_def demoWorld_def)
  show ?thesis
    using C9_refinement_interact[OF 1 refl, of "[]" demoSys]
          C9_refinement_interact[OF 2 refl, of "[]" demoSys]
    by (simp add: demoBase_def demoConfig_def demoBackend_def demoAction_def demoSys_def after_def)
qed

text \<open>
  C10. If the message contains both \<^verbatim>\<open>WRITE CODE\<close> and \<^verbatim>\<open>MOCK CODE\<close>,
  \<^verbatim>\<open>RefinementIterationState.interact\<close> is the \<^verbatim>\<open>interact\<close> of \<^verbatim>\<open>CodeGenState\<close>,
  and it differs from the \<^verbatim>\<open>interact\<close> of \<^verbatim>\<open>MockCodeGenState\<close> (which issues no
  remote call).
\<close>

theorem C10_write_code_precedence:
  assumes "msg action = Some m"
    and "sublist ''WRITE CODE'' m" and "sublist ''MOCK CODE'' m"
  shows "interact w (RefinementIterationState cfg a) action s =
           interact w (CodeGenState cfg a) action s
       \<and> interact w (RefinementIterationState cfg a) action s \<noteq>
           interact w (MockCodeGenState cfg a) action s"
proof -
  have eq: "RefinementIterationState_interact w cfg a action s =
              CodeGenState_interact w cfg a action s"
    using msgHas_sentinel[OF assms(2)] assms(1)
    by (simp add: RefinementIterationState_interact_def)
  obtain rest where "events (snd (CodeGenState_interact w cfg a action s)) =
            events s @ generateRequest cfg a (files action) action # rest"
    using CodeGenState_interact_events by blast
  then have "events (snd (CodeGenState_interact w cfg a action s)) \<noteq>
             events (snd (MockCodeGenState_interact w cfg a action s))"
    by (simp add: MockCodeGenState_interact_events)
  then have "CodeGenState_interact w cfg a action s \<noteq> MockCodeGenState_interact w cfg a action s"
    by auto
  with eq show ?thesis by simp
qed

theorem C10_write_code_precedence_witness:
  "interact demoWorldReady (RefinementIterationState demoConfig ''plan'')
     (demoAction (Some ''MOCK CODE or WRITE CODE'')) demoSys =
   interact demoWorldReady (CodeGenState demoConfig ''plan'')
     (demoAction (Some ''MOCK CODE or WRITE CODE'')) demoSys
   \<and> interact demoWorldReady (RefinementIterationState demoConfig ''plan'')
       (demoAction (Some ''MOCK CODE or WRITE CODE'')) demoSys \<noteq>
     interact demoWorldReady (MockCodeGenState demoConfig ''plan'')
       (demoAction (Some ''MOCK CODE or WRITE CODE'')) demoSys"
proof -
  have m: "msg (demoAction (Some ''MOCK CODE or WRITE CODE'')) = Some ''MOCK CODE or WRITE CODE''"
    by (simp add: demoAction_def)
  have s1: "sublist ''WRITE CODE'' ''MOCK CODE or WRITE CODE''"
    using sublist_appendI[of "''WRITE CODE''" "''MOCK CODE or ''" "[]"] by simp
  have s2: "sublist ''MOCK CODE'' ''MOCK CODE or WRITE CODE''"
    using sublist_appendI[of "''MOCK CODE''" "[]" "'' or WRITE CODE''"] by simp
  show ?thesis
    by (rule C10_write_code_precedence[OF m s1 s2])
qed

end
